theory Spec2Isabelle
  imports Complex_Main "HOL-Library.AList" "HOL-Library.Word"
begin

unbundle bit_operations_syntax

section \<open>JavaScript values and small string helpers\<close>

text \<open>
  Strings are lists of characters (one \<open>char\<close> per code unit). A JSON value, as
  \<open>JSON.parse\<close> produces it for the arguments of a tool call, is a \<open>jsval\<close>; an object is
  the list of its own properties in insertion order. Properties inherited from
  \<open>Object.prototype\<close> are outside the model.
\<close>

datatype jsval =
    JNull
  | JBool bool
  | JNum rat
  | JStr string
  | JArr "jsval list"
  | JObj "(string \<times> jsval) list"

text \<open>A thrown value: an \<open>Error\<close> object with its message, or a thrown string.\<close>

datatype thrown = ErrorObj string | ThrownString string

text \<open>\<open>Array.prototype.join(sep)\<close> on an array of strings.\<close>

fun join :: "string \<Rightarrow> string list \<Rightarrow> string" where
  "join sep [] = []"
| "join sep [x] = x"
| "join sep (x # y # ys) = x @ sep @ join sep (y # ys)"

text \<open>Decimal rendering of a natural number (template literals print counts with it).\<close>

definition digit_char :: "nat \<Rightarrow> char" where
  "digit_char d = ''0123456789'' ! d"

fun string_of_nat :: "nat \<Rightarrow> string" where
  "string_of_nat n =
     (if n < 10 then [digit_char n] else string_of_nat (n div 10) @ [digit_char (n mod 10)])"

declare string_of_nat.simps [simp del]

section \<open>JavaScript string operations\<close>

text \<open>The character classes \<open>\w\<close> and \<open>\s\<close> on code units below 256.\<close>

definition is_word_char :: "char \<Rightarrow> bool" where
  "is_word_char c =
     (let n = (of_char c :: nat) in
      (48 \<le> n \<and> n \<le> 57) \<or> (65 \<le> n \<and> n \<le> 90) \<or> (97 \<le> n \<and> n \<le> 122) \<or> n = 95)"

definition is_space_char :: "char \<Rightarrow> bool" where
  "is_space_char c =
     (let n = (of_char c :: nat) in (9 \<le> n \<and> n \<le> 13) \<or> n = 32 \<or> n = 160)"

text \<open>
  \<open>String.prototype.toLowerCase\<close> on code units below 256: the lower-case letter is 32
  above the upper-case one, which sets the bit of weight 32.
\<close>

definition lower_char :: "char \<Rightarrow> char" where
  "lower_char c =
     (let n = (of_char c :: nat) in
      if (65 \<le> n \<and> n \<le> 90) \<or> (192 \<le> n \<and> n \<le> 222 \<and> n \<noteq> 215)
      then (case c of Char b0 b1 b2 b3 b4 b5 b6 b7 \<Rightarrow> Char b0 b1 b2 b3 b4 True b6 b7)
      else c)"

definition toLowerCase :: "string \<Rightarrow> string" where
  "toLowerCase s = map lower_char s"

text \<open>\<open>s.startsWith(p)\<close>, \<open>s.indexOf(p)\<close> (\<open>None\<close> for \<open>-1\<close>) and \<open>s.includes(p)\<close>.\<close>

fun startsWith :: "string \<Rightarrow> string \<Rightarrow> bool" where
  "startsWith s [] = True"
| "startsWith [] (p # ps) = False"
| "startsWith (c # cs) (p # ps) = (c = p \<and> startsWith cs ps)"

fun indexOf :: "string \<Rightarrow> string \<Rightarrow> nat option" where
  "indexOf [] p = (if p = [] then Some 0 else None)"
| "indexOf (c # cs) p =
     (if startsWith (c # cs) p then Some 0 else map_option Suc (indexOf cs p))"

definition js_includes :: "string \<Rightarrow> string \<Rightarrow> bool" where
  "js_includes s p = (indexOf s p \<noteq> None)"

text \<open>\<open>s.split(c)\<close> for a one-character separator: never empty.\<close>

fun split_char :: "char \<Rightarrow> string \<Rightarrow> string list" where
  "split_char sep [] = [[]]"
| "split_char sep (c # cs) =
     (if c = sep then [] # split_char sep cs
      else (case split_char sep cs of
              [] \<Rightarrow> [[c]]
            | w # ws \<Rightarrow> (c # w) # ws))"

text \<open>
  \<open>s.split(/\s+/)\<close>: the pieces between maximal runs of white space, with an empty
  piece before a leading and after a trailing run.
\<close>

fun split_ws :: "string \<Rightarrow> string list" where
  "split_ws [] = [[]]"
| "split_ws [c] = (if is_space_char c then [[], []] else [[c]])"
| "split_ws (c # d # ds) =
     (if is_space_char c
      then (if is_space_char d then split_ws (d # ds) else [] # split_ws (d # ds))
      else (case split_ws (d # ds) of
              [] \<Rightarrow> [[c]]
            | w # ws \<Rightarrow> (c # w) # ws))"

text \<open>\<open>s.trim()\<close>.\<close>

definition trim :: "string \<Rightarrow> string" where
  "trim s = rev (dropWhile is_space_char (rev (dropWhile is_space_char s)))"

text \<open>\<open>xs.pop()\<close> read as the last element: \<open>undefined\<close> on an empty array.\<close>

definition last_opt :: "'a list \<Rightarrow> 'a option" where
  "last_opt xs = (case xs of [] \<Rightarrow> None | _ \<Rightarrow> Some (last xs))"

text \<open>
  The number of matches of \<open>new RegExp(p, 'g')\<close> in \<open>s\<close> when \<open>p\<close> is free of
  metacharacters: the occurrences of \<open>p\<close> found left to right, each search resuming
  behind the previous match. The empty pattern matches once at every position.
\<close>

fun count_matches :: "string \<Rightarrow> string \<Rightarrow> nat" where
  "count_matches p [] = (if p = [] then 1 else 0)"
| "count_matches p (c # cs) =
     (if p = [] then Suc (count_matches p cs)
      else if startsWith (c # cs) p
      then Suc (count_matches p (drop (length p - 1) cs))
      else count_matches p cs)"

section \<open>A backtracking matcher for the regular expressions of the sources\<close>

text \<open>
  The patterns the sources match lines against use character classes, sequence, ordered
  alternation, greedy and lazy repetition, one capturing group and the anchors. \<open>ms r st\<close>
  lists the ways \<open>r\<close> can match at a state, in the order a backtracking matcher tries
  them; a state is the position, the rest of the input and the capture. An iteration of a
  repetition that consumes nothing is rejected, as ECMAScript does.
\<close>

datatype regex =
    Eps
  | Sym "char \<Rightarrow> bool"
  | Seq regex regex
  | Alt regex regex
  | Star regex
  | LazyStar regex
  | Cap regex
  | Bol
  | Eol

type_synonym mstate = "nat \<times> string \<times> string option"

fun ms :: "regex \<Rightarrow> mstate \<Rightarrow> mstate list" where
  "ms Eps st = [st]"
| "ms (Sym P) (pos, s, cap) =
     (case s of [] \<Rightarrow> [] | c # cs \<Rightarrow> (if P c then [(Suc pos, cs, cap)] else []))"
| "ms (Seq a b) st = concat (map (ms b) (ms a st))"
| "ms (Alt a b) st = ms a st @ ms b st"
| "ms (Star a) (pos, s, cap) =
     concat (map (\<lambda>st'. if length (fst (snd st')) < length s then ms (Star a) st' else [])
                 (ms a (pos, s, cap)))
     @ [(pos, s, cap)]"
| "ms (LazyStar a) (pos, s, cap) =
     (pos, s, cap)
     # concat (map (\<lambda>st'. if length (fst (snd st')) < length s then ms (LazyStar a) st' else [])
                 (ms a (pos, s, cap)))"
| "ms (Cap a) (pos, s, cap) =
     map (\<lambda>st'. (fst st', fst (snd st'), Some (take (fst st' - pos) s))) (ms a (pos, s, cap))"
| "ms Bol (pos, s, cap) = (if pos = 0 then [(pos, s, cap)] else [])"
| "ms Eol (pos, s, cap) = (if s = [] then [(pos, s, cap)] else [])"

text \<open>The first match starting at position \<open>pos\<close> or later, \<open>s\<close> being the input from there.\<close>

fun search_from :: "regex \<Rightarrow> nat \<Rightarrow> string \<Rightarrow> mstate option" where
  "search_from r pos s =
     (case ms r (pos, s, None) of
        st # _ \<Rightarrow> Some st
      | [] \<Rightarrow> (case s of [] \<Rightarrow> None | c # cs \<Rightarrow> search_from r (Suc pos) cs))"

text \<open>
  \<open>line.match(r)\<close> for a pattern whose group 1 takes part in every match: \<open>None\<close> for
  \<open>null\<close>, otherwise \<open>match[1]\<close>.
\<close>

definition match1 :: "regex \<Rightarrow> string \<Rightarrow> string option" where
  "match1 r line =
     (case search_from r 0 line of
        None \<Rightarrow> None
      | Some st \<Rightarrow> (case snd (snd st) of None \<Rightarrow> Some [] | Some g \<Rightarrow> Some g))"

definition lit :: "string \<Rightarrow> regex" where
  "lit s = foldr (\<lambda>c r. Seq (Sym (\<lambda>x. x = c)) r) s Eps"

definition rep1 :: "regex \<Rightarrow> regex" where
  "rep1 r = Seq r (Star r)"

definition opt :: "regex \<Rightarrow> regex" where
  "opt r = Alt r Eps"

definition seqs :: "regex list \<Rightarrow> regex" where
  "seqs rs = foldr Seq rs Eps"

definition alts :: "regex list \<Rightarrow> regex" where
  "alts rs = (case rs of [] \<Rightarrow> Eps | _ \<Rightarrow> foldr Alt (butlast rs) (last rs))"

abbreviation re_w :: regex where "re_w \<equiv> Sym is_word_char"
abbreviation re_s :: regex where "re_s \<equiv> Sym is_space_char"
abbreviation re_not_rparen :: regex where "re_not_rparen \<equiv> Sym (\<lambda>c. c \<noteq> CHR '')'')"

section \<open>Utils (utils.js)\<close>

text \<open>\<open>filePath.split('.').pop()?.toLowerCase() || ''\<close>.\<close>

definition getFileExtension :: "string \<Rightarrow> string" where
  "getFileExtension filePath =
     (case last_opt (split_char (CHR ''.'') filePath) of
        None \<Rightarrow> []
      | Some e \<Rightarrow> toLowerCase e)"

text \<open>\<open>filePath.split('/').pop() || filePath\<close>.\<close>

definition getFileName :: "string \<Rightarrow> string" where
  "getFileName filePath =
     (case last_opt (split_char (CHR ''/'') filePath) of
        None \<Rightarrow> filePath
      | Some n \<Rightarrow> (if n = [] then filePath else n))"

definition getDirectoryPath :: "string \<Rightarrow> string" where
  "getDirectoryPath filePath = join ''/'' (butlast (split_char (CHR ''/'') filePath))"

text \<open>\<open>path.replace(/\\/g, '/').replace(/\/+/g, '/')\<close>.\<close>

fun collapse_slashes :: "string \<Rightarrow> string" where
  "collapse_slashes (c # d # ds) =
     (if c = CHR ''/'' \<and> d = CHR ''/'' then collapse_slashes (d # ds)
      else c # collapse_slashes (d # ds))"
| "collapse_slashes s = s"

definition normalizePath :: "string \<Rightarrow> string" where
  "normalizePath path =
     collapse_slashes (map (\<lambda>c. if c = CHR 0x5C then CHR ''/'' else c) path)"

text \<open>
  \<open>Utils.simpleHash\<close>: \<open>hash = ((hash << 5) - hash) + char; hash = hash & hash\<close> keeps a
  32-bit integer; the final \<open>toString(36)\<close> is injective on those and is left out.
\<close>

definition simpleHash :: "string \<Rightarrow> 32 word" where
  "simpleHash str = foldl (\<lambda>hash c. (push_bit 5 hash - hash) + of_char c) 0 str"

text \<open>
  \<open>Utils.calculateSimilarity\<close>: the matrix is filled row by row, one row for each
  character of \<open>str2\<close>; \<open>lev_row\<close> computes a row from the previous one.
\<close>

fun lev_row :: "char \<Rightarrow> string \<Rightarrow> nat list \<Rightarrow> nat \<Rightarrow> nat list" where
  "lev_row c2 (c1 # cs) (diag # up # prev) left =
     (let v = (if c2 = c1 then diag else min (diag + 1) (min (left + 1) (up + 1)))
      in v # lev_row c2 cs (up # prev) v)"
| "lev_row c2 str1 prev left = []"

fun lev_rows :: "string \<Rightarrow> string \<Rightarrow> nat \<Rightarrow> nat list \<Rightarrow> nat list" where
  "lev_rows str1 [] i prev = prev"
| "lev_rows str1 (c2 # cs) i prev = lev_rows str1 cs (Suc i) (Suc i # lev_row c2 str1 prev (Suc i))"

definition calculateSimilarity :: "string \<Rightarrow> string \<Rightarrow> rat" where
  "calculateSimilarity str1 str2 =
     (let len1 = length str1; len2 = length str2;
          lastRow = lev_rows str1 str2 0 [0 ..< Suc len1];
          maxLen = max len1 len2
      in if maxLen = 0 then 1
         else (of_nat maxLen - of_nat (last lastRow)) / of_nat maxLen)"

section \<open>The file index (class FileIndex)\<close>

record LineInfo =
  li_lineNumber :: nat
  li_content :: string
  li_tokens :: "string list"
  li_indentation :: nat

text \<open>The column is \<open>line.indexOf(name)\<close>, with \<open>-1\<close> for a name that is not found.\<close>

record SymbolInfo =
  sym_name :: string
  sym_type :: string
  sym_filePath :: string
  sym_lineNumber :: nat
  sym_column :: int
  sym_context :: string

text \<open>
  The four \<open>Map\<close>s of the index, each as the list of its entries in insertion order:
  \<open>AList.update\<close> overwrites the value of a present key in place and appends an absent
  key, as \<open>Map.prototype.set\<close> does. A \<open>Set\<close> of paths is the list of its members in
  insertion order.
\<close>

record FileIndex =
  tokenIndex :: "(string \<times> string list) list"
  lineIndex :: "(string \<times> LineInfo list) list"
  symbolIndex :: "(string \<times> SymbolInfo list) list"
  fileHashes :: "(string \<times> 32 word) list"

definition empty_index :: FileIndex where
  "empty_index = \<lparr>tokenIndex = [], lineIndex = [], symbolIndex = [], fileHashes = []\<rparr>"

definition set_add :: "'a \<Rightarrow> 'a list \<Rightarrow> 'a list" where
  "set_add x xs = (if x \<in> set xs then xs else xs @ [x])"

definition index_stopWords :: "string list" where
  "index_stopWords =
     [''the'', ''and'', ''or'', ''but'', ''in'', ''on'', ''at'', ''to'', ''for'', ''of'', ''with'', ''by'',
      ''from'', ''up'', ''about'', ''into'', ''through'', ''during'', ''before'', ''after'',
      ''above'', ''below'', ''between'', ''among'', ''through'', ''during'', ''before'', ''after'']"

definition isStopWord :: "string \<Rightarrow> bool" where
  "isStopWord word = (word \<in> set index_stopWords)"

text \<open>\<open>text.toLowerCase().replace(/[^\w\s]/g, ' ').split(/\s+/).filter(...)\<close>.\<close>

definition strip_punctuation :: "string \<Rightarrow> string" where
  "strip_punctuation s = map (\<lambda>c. if is_word_char c \<or> is_space_char c then c else CHR '' '') s"

definition tokenize :: "string \<Rightarrow> string list" where
  "tokenize txt =
     filter (\<lambda>token. length token > 2 \<and> \<not> isStopWord token)
       (split_ws (strip_punctuation (toLowerCase txt)))"

text \<open>\<open>line.match(/^(\s*)/)\<close> always matches; the group is the leading white space.\<close>

definition getIndentation :: "string \<Rightarrow> nat" where
  "getIndentation line = length (takeWhile is_space_char line)"

subsection \<open>Symbol extraction\<close>

definition mk_symbol :: "string \<Rightarrow> string \<Rightarrow> string \<Rightarrow> nat \<Rightarrow> string \<Rightarrow> SymbolInfo" where
  "mk_symbol name typ filePath lineNum line =
     \<lparr>sym_name = name, sym_type = typ, sym_filePath = filePath, sym_lineNumber = lineNum,
      sym_column = (case indexOf line name of None \<Rightarrow> - 1 | Some i \<Rightarrow> int i),
      sym_context = trim line\<rparr>"

text \<open>
  \<open>match = line.match(r); if (match && cond) symbols.push(new SymbolInfo(match[1], typ, ...))\<close>:
  the symbols this statement pushes.
\<close>

definition sym_if :: "regex \<Rightarrow> bool \<Rightarrow> string \<Rightarrow> string \<Rightarrow> nat \<Rightarrow> string \<Rightarrow> SymbolInfo list" where
  "sym_if r cond typ filePath lineNum line =
     (case match1 r line of
        None \<Rightarrow> []
      | Some name \<Rightarrow> (if cond then [mk_symbol name typ filePath lineNum line] else []))"

text \<open>The patterns of \<open>extractJavaScriptSymbols\<close>, in the order of the source.\<close>

definition re_js_function :: regex where
  "re_js_function =
     seqs [alts [Seq (lit ''function'') (rep1 re_s), Seq (lit ''const'') (rep1 re_s),
                 Seq (lit ''let'') (rep1 re_s), Seq (lit ''var'') (rep1 re_s)],
           Cap (rep1 re_w), Star re_s,
           alts [seqs [lit ''='', Star re_s, opt (Seq (lit ''async'') (rep1 re_s)),
                       alts [lit ''function'', lit ''('']],
                 seqs [lit ''('', Star re_not_rparen, lit '')'', Star re_s, lit ''=>'']]]"

definition re_js_arrow :: regex where
  "re_js_arrow =
     seqs [alts [lit ''const'', lit ''let'', lit ''var''], rep1 re_s, Cap (rep1 re_w), Star re_s,
           lit ''='', Star re_s, opt (Seq (lit ''async'') (rep1 re_s)),
           lit ''('', Star re_not_rparen, lit '')'', Star re_s, lit ''=>'']"

definition re_class :: regex where
  "re_class = seqs [lit ''class'', rep1 re_s, Cap (rep1 re_w)]"

definition re_interface :: regex where
  "re_interface = seqs [lit ''interface'', rep1 re_s, Cap (rep1 re_w)]"

definition re_js_method :: regex where
  "re_js_method =
     seqs [Cap (rep1 re_w), Star re_s, lit ''('', Star re_not_rparen, lit '')'', Star re_s, lit ''{'']"

definition re_js_variable :: regex where
  "re_js_variable =
     seqs [alts [lit ''const'', lit ''let'', lit ''var''], rep1 re_s, Cap (rep1 re_w), Star re_s,
           lit ''='']"

text \<open>
  The body of the \<open>forEach\<close> over the lines: \<open>symbols\<close> is the array built so far, which
  the last test reads.
\<close>

definition js_line_symbols :: "string \<Rightarrow> SymbolInfo list \<Rightarrow> nat \<times> string \<Rightarrow> SymbolInfo list" where
  "js_line_symbols filePath symbols il =
     (let lineNum = Suc (fst il); line = snd il;
          s1 = symbols @ sym_if re_js_function True ''function'' filePath lineNum line;
          s2 = s1 @ sym_if re_js_arrow True ''function'' filePath lineNum line;
          s3 = s2 @ sym_if re_class True ''class'' filePath lineNum line;
          s4 = s3 @ sym_if re_interface True ''interface'' filePath lineNum line;
          s5 = s4 @ sym_if re_js_method
                 (\<not> js_includes line ''function'' \<and> \<not> js_includes line ''if''
                  \<and> \<not> js_includes line ''for'')
                 ''method'' filePath lineNum line
      in s5 @ (case match1 re_js_variable line of
                 None \<Rightarrow> []
               | Some name \<Rightarrow>
                   (if \<not> list_ex (\<lambda>s. sym_name s = name \<and> sym_lineNumber s = lineNum) s5
                    then [mk_symbol name ''variable'' filePath lineNum line] else [])))"

definition numbered_lines :: "string \<Rightarrow> (nat \<times> string) list" where
  "numbered_lines content = enumerate 0 (split_char (CHR 0x0A) content)"

definition extractJavaScriptSymbols :: "string \<Rightarrow> string \<Rightarrow> SymbolInfo list" where
  "extractJavaScriptSymbols content filePath =
     foldl (js_line_symbols filePath) [] (numbered_lines content)"

text \<open>\<open>extractPythonSymbols\<close>.\<close>

definition re_py_def :: regex where
  "re_py_def = seqs [lit ''def'', rep1 re_s, Cap (rep1 re_w), Star re_s, lit ''('']"

definition re_py_variable :: regex where
  "re_py_variable = seqs [Bol, Cap (rep1 re_w), Star re_s, lit ''='']"

definition py_line_symbols :: "string \<Rightarrow> SymbolInfo list \<Rightarrow> nat \<times> string \<Rightarrow> SymbolInfo list" where
  "py_line_symbols filePath symbols il =
     (let lineNum = Suc (fst il); line = snd il
      in symbols
         @ sym_if re_py_def True ''function'' filePath lineNum line
         @ sym_if re_class True ''class'' filePath lineNum line
         @ sym_if re_py_variable
             (\<not> js_includes line ''def'' \<and> \<not> js_includes line ''class'')
             ''variable'' filePath lineNum line)"

definition extractPythonSymbols :: "string \<Rightarrow> string \<Rightarrow> SymbolInfo list" where
  "extractPythonSymbols content filePath =
     foldl (py_line_symbols filePath) [] (numbered_lines content)"

text \<open>\<open>extractJavaSymbols\<close>.\<close>

definition re_visibility :: regex where
  "re_visibility = alts [lit ''public'', lit ''private'', lit ''protected'']"

definition re_java_class :: regex where
  "re_java_class = seqs [opt re_visibility, Star re_s, lit ''class'', rep1 re_s, Cap (rep1 re_w)]"

definition re_java_interface :: regex where
  "re_java_interface =
     seqs [opt re_visibility, Star re_s, lit ''interface'', rep1 re_s, Cap (rep1 re_w)]"

definition re_java_method :: regex where
  "re_java_method =
     seqs [re_visibility, rep1 re_s, opt (Seq (lit ''static'') (rep1 re_s)),
           Star (Seq (rep1 re_w) (rep1 re_s)), Cap (rep1 re_w), Star re_s,
           lit ''('', Star re_not_rparen, lit '')'', Star re_s, opt (lit ''{'')]"

definition java_line_symbols :: "string \<Rightarrow> SymbolInfo list \<Rightarrow> nat \<times> string \<Rightarrow> SymbolInfo list" where
  "java_line_symbols filePath symbols il =
     (let lineNum = Suc (fst il); line = snd il
      in symbols
         @ sym_if re_java_class True ''class'' filePath lineNum line
         @ sym_if re_java_interface True ''interface'' filePath lineNum line
         @ sym_if re_java_method
             (\<not> js_includes line ''class'' \<and> \<not> js_includes line ''interface'')
             ''method'' filePath lineNum line)"

definition extractJavaSymbols :: "string \<Rightarrow> string \<Rightarrow> SymbolInfo list" where
  "extractJavaSymbols content filePath =
     foldl (java_line_symbols filePath) [] (numbered_lines content)"

text \<open>\<open>extractCSymbols\<close>.\<close>

definition re_c_function :: regex where
  "re_c_function =
     seqs [Star (Seq (rep1 re_w) (rep1 re_s)), Cap (rep1 re_w), Star re_s,
           lit ''('', Star re_not_rparen, lit '')'', Star re_s, lit ''{'']"

definition re_struct :: regex where
  "re_struct = seqs [lit ''struct'', rep1 re_s, Cap (rep1 re_w)]"

definition c_line_symbols :: "string \<Rightarrow> SymbolInfo list \<Rightarrow> nat \<times> string \<Rightarrow> SymbolInfo list" where
  "c_line_symbols filePath symbols il =
     (let lineNum = Suc (fst il); line = snd il
      in symbols
         @ sym_if re_c_function
             (\<not> js_includes line ''if'' \<and> \<not> js_includes line ''for''
              \<and> \<not> js_includes line ''while'')
             ''function'' filePath lineNum line
         @ sym_if re_struct True ''class'' filePath lineNum line
         @ sym_if re_class True ''class'' filePath lineNum line)"

definition extractCSymbols :: "string \<Rightarrow> string \<Rightarrow> SymbolInfo list" where
  "extractCSymbols content filePath =
     foldl (c_line_symbols filePath) [] (numbered_lines content)"

text \<open>\<open>extractGoSymbols\<close>.\<close>

definition re_go_func :: regex where
  "re_go_func = seqs [lit ''func'', rep1 re_s, Cap (rep1 re_w), Star re_s, lit ''('']"

definition re_go_type :: regex where
  "re_go_type =
     seqs [lit ''type'', rep1 re_s, Cap (rep1 re_w), rep1 re_s,
           alts [lit ''struct'', lit ''interface'']]"

definition re_go_var :: regex where
  "re_go_var = seqs [lit ''var'', rep1 re_s, Cap (rep1 re_w)]"

definition go_line_symbols :: "string \<Rightarrow> SymbolInfo list \<Rightarrow> nat \<times> string \<Rightarrow> SymbolInfo list" where
  "go_line_symbols filePath symbols il =
     (let lineNum = Suc (fst il); line = snd il
      in symbols
         @ sym_if re_go_func True ''function'' filePath lineNum line
         @ sym_if re_go_type True
             (if js_includes line ''interface'' then ''interface'' else ''class'')
             filePath lineNum line
         @ sym_if re_go_var True ''variable'' filePath lineNum line)"

definition extractGoSymbols :: "string \<Rightarrow> string \<Rightarrow> SymbolInfo list" where
  "extractGoSymbols content filePath =
     foldl (go_line_symbols filePath) [] (numbered_lines content)"

text \<open>\<open>extractGenericSymbols\<close>.\<close>

definition re_generic_call :: regex where
  "re_generic_call = seqs [Cap (rep1 re_w), Star re_s, lit ''('', Star re_not_rparen, lit '')'']"

definition generic_line_symbols ::
  "string \<Rightarrow> SymbolInfo list \<Rightarrow> nat \<times> string \<Rightarrow> SymbolInfo list" where
  "generic_line_symbols filePath symbols il =
     (let lineNum = Suc (fst il); line = snd il
      in symbols
         @ sym_if re_generic_call (js_includes line ''{'') ''function'' filePath lineNum line)"

definition extractGenericSymbols :: "string \<Rightarrow> string \<Rightarrow> SymbolInfo list" where
  "extractGenericSymbols content filePath =
     foldl (generic_line_symbols filePath) [] (numbered_lines content)"

text \<open>The \<open>switch (extension)\<close> of \<open>extractSymbols\<close>.\<close>

definition symbols_of :: "string \<Rightarrow> string \<Rightarrow> SymbolInfo list" where
  "symbols_of filePath content =
     (let extension = getFileExtension filePath in
      if extension \<in> set [''js'', ''jsx'', ''ts'', ''tsx''] then extractJavaScriptSymbols content filePath
      else if extension = ''py'' then extractPythonSymbols content filePath
      else if extension = ''java'' then extractJavaSymbols content filePath
      else if extension \<in> set [''cpp'', ''c''] then extractCSymbols content filePath
      else if extension = ''go'' then extractGoSymbols content filePath
      else extractGenericSymbols content filePath)"

text \<open>
  \<open>if (!symbolIndex.has(name)) symbolIndex.set(name, []); symbolIndex.get(name).push(symbol)\<close>.
\<close>

definition push_symbol ::
  "(string \<times> SymbolInfo list) list \<Rightarrow> SymbolInfo \<Rightarrow> (string \<times> SymbolInfo list) list" where
  "push_symbol si symbol =
     AList.update (sym_name symbol)
       ((case map_of si (sym_name symbol) of None \<Rightarrow> [] | Some l \<Rightarrow> l) @ [symbol]) si"

definition extractSymbols :: "string \<Rightarrow> string \<Rightarrow> FileIndex \<Rightarrow> FileIndex" where
  "extractSymbols filePath content idx =
     idx\<lparr>symbolIndex := foldl push_symbol (symbolIndex idx) (symbols_of filePath content)\<rparr>"

subsection \<open>Indexing a file\<close>

text \<open>
  \<open>if (!tokenIndex.has(token)) tokenIndex.set(token, new Set()); tokenIndex.get(token).add(filePath)\<close>.
\<close>

definition add_token ::
  "string \<Rightarrow> (string \<times> string list) list \<Rightarrow> string \<Rightarrow> (string \<times> string list) list" where
  "add_token filePath ti token =
     AList.update token
       (set_add filePath (case map_of ti token of None \<Rightarrow> [] | Some fs \<Rightarrow> fs)) ti"

definition lineInfo_of :: "nat \<times> string \<Rightarrow> LineInfo" where
  "lineInfo_of il =
     \<lparr>li_lineNumber = Suc (fst il), li_content = snd il, li_tokens = tokenize (snd il),
      li_indentation = getIndentation (snd il)\<rparr>"

definition indexFile :: "string \<Rightarrow> string \<Rightarrow> FileIndex \<Rightarrow> FileIndex" where
  "indexFile filePath content idx =
     (let lines = numbered_lines content;
          lineInfos = map lineInfo_of lines;
          idx1 = idx\<lparr>tokenIndex :=
                   foldl (\<lambda>ti il. foldl (add_token filePath) ti (tokenize (snd il)))
                     (tokenIndex idx) lines\<rparr>;
          idx2 = idx1\<lparr>lineIndex := AList.update filePath lineInfos (lineIndex idx1)\<rparr>;
          idx3 = extractSymbols filePath content idx2
      in idx3\<lparr>fileHashes := AList.update filePath (simpleHash content) (fileHashes idx3)\<rparr>)"

text \<open>\<open>searchSymbols(query, limit = 50)\<close> and \<open>getSymbols(filePath)\<close>.\<close>

definition searchSymbols :: "FileIndex \<Rightarrow> string \<Rightarrow> nat \<Rightarrow> SymbolInfo list" where
  "searchSymbols idx query limit =
     take limit
       (concat (map snd
          (filter (\<lambda>entry. js_includes (toLowerCase (fst entry)) (toLowerCase query))
             (symbolIndex idx))))"

definition getSymbols :: "FileIndex \<Rightarrow> string \<Rightarrow> SymbolInfo list" where
  "getSymbols idx filePath =
     sort_key sym_lineNumber
       (concat (map (\<lambda>entry. filter (\<lambda>s. sym_filePath s = filePath) (snd entry))
          (symbolIndex idx)))"

subsection \<open>Content search\<close>

record MatchedLine =
  ml_lineNumber :: nat
  ml_content :: string
  ml_matchStart :: nat
  ml_matchEnd :: nat

record FileSearchResult =
  fsr_filePath :: string
  fsr_content :: "string option"
  fsr_score :: rat
  fsr_matchedLines :: "MatchedLine list"
  fsr_reason :: string

text \<open>The fields of \<open>SearchOptions\<close> that the search reads.\<close>

record SearchOptions =
  includeFilenames :: bool
  includeContent :: bool
  caseSensitive :: bool
  maxResults :: nat

text \<open>\<open>options.maxResults || 50\<close>.\<close>

definition result_limit :: "SearchOptions \<Rightarrow> nat" where
  "result_limit options = (if maxResults options = 0 then 50 else maxResults options)"

text \<open>
  \<open>calculateRelevanceScore\<close> counts the matches of \<open>new RegExp(queryLower, 'g')\<close>. The
  model covers the queries free of regular-expression metacharacters, for which the
  pattern matches the query itself; what another query matches, or whether the
  constructor throws on it, is not modelled (\<open>None\<close>).
\<close>

definition regex_literal :: "string \<Rightarrow> bool" where
  "regex_literal q =
     (\<not> list_ex (\<lambda>c. c \<in> set (''^$.|?*+()[]{}'' @ [CHR 0x5C])) q)"

definition line_score :: "string \<Rightarrow> MatchedLine \<Rightarrow> rat" where
  "line_score queryLower line =
     (let content = toLowerCase (ml_content line) in
        of_nat (count_matches queryLower content)
      + max 0 (100 - of_nat (length (ml_content line))) / 100
      + (if js_includes content ('' '' @ queryLower @ '' '') then 2 else 0))"

definition calculateRelevanceScore :: "string \<Rightarrow> MatchedLine list \<Rightarrow> rat option" where
  "calculateRelevanceScore query matchedLines =
     (let queryLower = toLowerCase query in
      if regex_literal queryLower
      then Some (sum_list (map (line_score queryLower) matchedLines) / of_nat (length matchedLines))
      else None)"

text \<open>The candidate set of \<open>searchContent\<close>: the files of the query's tokens.\<close>

definition candidateFiles :: "FileIndex \<Rightarrow> string \<Rightarrow> string list" where
  "candidateFiles idx query =
     foldl (\<lambda>cands token.
              (case map_of (tokenIndex idx) token of
                 None \<Rightarrow> cands
               | Some fs \<Rightarrow> foldl (\<lambda>c f. set_add f c) cands fs))
       [] (tokenize query)"

definition matched_line :: "bool \<Rightarrow> string \<Rightarrow> LineInfo \<Rightarrow> MatchedLine list" where
  "matched_line cs query lineInfo =
     (let searchQuery = (if cs then query else toLowerCase query);
          searchText = (if cs then li_content lineInfo else toLowerCase (li_content lineInfo))
      in case indexOf searchText searchQuery of
           None \<Rightarrow> []
         | Some matchIndex \<Rightarrow>
             [\<lparr>ml_lineNumber = li_lineNumber lineInfo, ml_content = li_content lineInfo,
               ml_matchStart = matchIndex, ml_matchEnd = matchIndex + length query\<rparr>])"

definition file_matches :: "FileIndex \<Rightarrow> bool \<Rightarrow> string \<Rightarrow> string \<Rightarrow> MatchedLine list" where
  "file_matches idx cs query filePath =
     concat (map (matched_line cs query)
       (case map_of (lineIndex idx) filePath of None \<Rightarrow> [] | Some ls \<Rightarrow> ls))"

definition searchContent :: "FileIndex \<Rightarrow> string \<Rightarrow> SearchOptions \<Rightarrow> FileSearchResult list option" where
  "searchContent idx query options =
     (if \<not> regex_literal (toLowerCase query) then None
      else Some (take (result_limit options)
        (sort_key (\<lambda>r. - fsr_score r)
          (concat (map (\<lambda>filePath.
              (let matchedLines = file_matches idx (caseSensitive options) query filePath in
               if length matchedLines > 0
               then [\<lparr>fsr_filePath = filePath, fsr_content = None,
                      fsr_score = (case calculateRelevanceScore query matchedLines of
                                     None \<Rightarrow> 0 | Some sc \<Rightarrow> sc),
                      fsr_matchedLines = matchedLines, fsr_reason = ''content_match''\<rparr>]
               else []))
            (candidateFiles idx query))))))"

definition needsReindexing :: "FileIndex \<Rightarrow> string \<Rightarrow> string \<Rightarrow> bool" where
  "needsReindexing idx filePath content =
     (Some (simpleHash content) \<noteq> map_of (fileHashes idx) filePath)"

section \<open>The virtual file system (class VirtualFileSystem)\<close>

text \<open>A \<open>FileEntry\<close>; the content of a directory is \<open>null\<close>. Times are clock readings.\<close>

record FileEntry =
  fe_path :: string
  fe_content :: "string option"
  fe_type :: string
  fe_size :: nat
  fe_lastModified :: nat

text \<open>
  The store and its index. Listeners are notified after each mutation; a listener cannot
  make the mutation fail (its exceptions are caught), and the notifications are left out.
\<close>

record VirtualFileSystem =
  files :: "(string \<times> FileEntry) list"
  index :: FileIndex

definition empty_fs :: VirtualFileSystem where
  "empty_fs = \<lparr>files = [], index = empty_index\<rparr>"

text \<open>
  What a call reads from outside the store: the clock (\<open>new Date()\<close>) and the session
  cache of file contents, \<open>Storage.getFileContent\<close>. The object \<open>Storage\<close> is not defined
  by the sources of the file system, so the cache is a parameter: \<open>env_cached e p\<close> is what
  the cache returns for the path \<open>p\<close> during the call (\<open>None\<close> for \<open>null\<close>). The write
  \<open>Storage.storeFileContent\<close> of \<open>updateFile\<close> goes to that object and changes nothing in the
  store.
\<close>

record Env =
  env_now :: nat
  env_cached :: "string \<Rightarrow> string option"

definition no_cache :: "nat \<Rightarrow> Env" where
  "no_cache t = \<lparr>env_now = t, env_cached = (\<lambda>p. None)\<rparr>"


text \<open>\<open>addFile(path, content, type, size = null, lastModified = null)\<close>.\<close>

definition addFile ::
  "Env \<Rightarrow> string \<Rightarrow> string option \<Rightarrow> string \<Rightarrow> nat option \<Rightarrow> nat option
     \<Rightarrow> VirtualFileSystem \<Rightarrow> FileEntry \<times> VirtualFileSystem" where
  "addFile env path content type sizeArg lastModified fs =
     (let normalizedPath = normalizePath path;
          contentLength = (case content of None \<Rightarrow> 0 | Some c \<Rightarrow> length c);
          fileSize = (case sizeArg of None \<Rightarrow> contentLength
                      | Some n \<Rightarrow> (if n = 0 then contentLength else n));
          modTime = (case lastModified of None \<Rightarrow> env_now env | Some t \<Rightarrow> t);
          fileEntry = \<lparr>fe_path = normalizedPath, fe_content = content, fe_type = type,
                       fe_size = fileSize, fe_lastModified = modTime\<rparr>;
          fs1 = fs\<lparr>files := AList.update normalizedPath fileEntry (files fs)\<rparr>;
          fs2 = (case content of
                   None \<Rightarrow> fs1
                 | Some c \<Rightarrow>
                     (if type = ''file'' \<and> c \<noteq> []
                      then fs1\<lparr>index := indexFile normalizedPath c (index fs1)\<rparr>
                      else fs1))
      in (fileEntry, fs2))"

text \<open>
  \<open>getFile\<close>: an entry that is present takes the cached content when the cache holds a
  non-empty one that differs.
\<close>

definition getFile :: "Env \<Rightarrow> string \<Rightarrow> VirtualFileSystem \<Rightarrow> FileEntry option \<times> VirtualFileSystem" where
  "getFile env filePath fs =
     (let normalizedPath = normalizePath filePath in
      case map_of (files fs) normalizedPath of
        None \<Rightarrow> (None, fs)
      | Some file \<Rightarrow>
          (case env_cached env normalizedPath of
             None \<Rightarrow> (Some file, fs)
           | Some cachedContent \<Rightarrow>
               (if cachedContent \<noteq> [] \<and> fe_content file \<noteq> Some cachedContent
                then (let file' = file\<lparr>fe_content := Some cachedContent\<rparr>
                      in (Some file', fs\<lparr>files := AList.update normalizedPath file' (files fs)\<rparr>))
                else (Some file, fs))))"

text \<open>\<open>updateFile(filePath, newContent)\<close>, called with a string.\<close>

definition updateFile ::
  "Env \<Rightarrow> string \<Rightarrow> string \<Rightarrow> VirtualFileSystem \<Rightarrow> FileEntry \<times> VirtualFileSystem" where
  "updateFile env filePath newContent fs =
     (let normalizedPath = normalizePath filePath in
      case map_of (files fs) normalizedPath of
        Some existingFile \<Rightarrow>
          (let file' = existingFile\<lparr>fe_content := Some newContent,
                                     fe_size := length newContent,
                                     fe_lastModified := env_now env\<rparr>
           in (file', fs\<lparr>files := AList.update normalizedPath file' (files fs),
                         index := indexFile normalizedPath newContent (index fs)\<rparr>))
      | None \<Rightarrow> addFile env normalizedPath (Some newContent) ''file'' None None fs)"

text \<open>\<open>deleteFile(filePath)\<close>: the index is not touched.\<close>

definition deleteFile :: "string \<Rightarrow> VirtualFileSystem \<Rightarrow> bool \<times> VirtualFileSystem" where
  "deleteFile filePath fs =
     (let normalizedPath = normalizePath filePath in
      case map_of (files fs) normalizedPath of
        Some existingFile \<Rightarrow> (True, fs\<lparr>files := AList.delete normalizedPath (files fs)\<rparr>)
      | None \<Rightarrow> (False, fs))"

text \<open>What the store holds for a path: no entry, or the entry's content.\<close>

definition content_at :: "VirtualFileSystem \<Rightarrow> string \<Rightarrow> string option option" where
  "content_at fs p = map_option fe_content (map_of (files fs) p)"

subsection \<open>Searching the files (VirtualFileSystem.searchFiles)\<close>

text \<open>The filename matches: every entry whose file name contains the query.\<close>

definition filename_results :: "VirtualFileSystem \<Rightarrow> string \<Rightarrow> FileSearchResult list" where
  "filename_results fs query =
     (let queryLower = toLowerCase query in
      concat (map (\<lambda>entry.
          (let fileName = toLowerCase (getFileName (fst entry)) in
           if js_includes fileName queryLower
           then [\<lparr>fsr_filePath = fst entry, fsr_content = fe_content (snd entry),
                  fsr_score = calculateSimilarity fileName queryLower * 2,
                  fsr_matchedLines = [], fsr_reason = ''filename_match''\<rparr>]
           else []))
        (files fs)))"

text \<open>The content matches, each given the content that \<open>getFile\<close> returns.\<close>

fun load_contents ::
  "Env \<Rightarrow> FileSearchResult list \<Rightarrow> VirtualFileSystem \<Rightarrow> FileSearchResult list \<times> VirtualFileSystem" where
  "load_contents env [] fs = ([], fs)"
| "load_contents env (r # rs) fs =
     (let (file, fs1) = getFile env (fsr_filePath r) fs;
          r1 = (case file of None \<Rightarrow> r | Some f \<Rightarrow> r\<lparr>fsr_content := fe_content f\<rparr>);
          (rs1, fs2) = load_contents env rs fs1
      in (r1 # rs1, fs2))"

text \<open>
  The \<open>Map\<close> that removes duplicates: a result replaces an earlier one for the same path
  when its score is greater, and keeps that one's place.
\<close>

definition unique_step ::
  "(string \<times> FileSearchResult) list \<Rightarrow> FileSearchResult \<Rightarrow> (string \<times> FileSearchResult) list" where
  "unique_step u r =
     (case map_of u (fsr_filePath r) of
        None \<Rightarrow> AList.update (fsr_filePath r) r u
      | Some existing \<Rightarrow>
          (if fsr_score r > fsr_score existing then AList.update (fsr_filePath r) r u else u))"

definition searchFiles ::
  "Env \<Rightarrow> string \<Rightarrow> SearchOptions \<Rightarrow> VirtualFileSystem
     \<Rightarrow> FileSearchResult list option \<times> VirtualFileSystem" where
  "searchFiles env query options fs =
     (let byName = (if includeFilenames options then filename_results fs query else []) in
      case (if includeContent options then searchContent (index fs) query options else Some []) of
        None \<Rightarrow> (None, fs)
      | Some contentResults \<Rightarrow>
          (let (byContent, fs1) = load_contents env contentResults fs;
               uniqueResults = foldl unique_step [] (byName @ byContent)
           in (Some (take (result_limit options)
                       (sort_key (\<lambda>r. - fsr_score r) (map snd uniqueResults))),
               fs1)))"

section \<open>Tool parameters and argument validation (base-tool.js)\<close>

record ToolParameter =
  param_name :: string
  param_type :: string
  param_description :: string
  param_required :: bool
  param_enum :: "string list option"

text \<open>\<open>name in args\<close> and \<open>args[name]\<close> for an arguments object.\<close>

definition has_prop :: "(string \<times> jsval) list \<Rightarrow> string \<Rightarrow> bool" where
  "has_prop args n = (map_of args n \<noteq> None)"

text \<open>\<open>typeof value\<close> and \<open>Array.isArray(value)\<close>.\<close>

fun js_typeof :: "jsval \<Rightarrow> string" where
  "js_typeof JNull = ''object''"
| "js_typeof (JBool b) = ''boolean''"
| "js_typeof (JNum r) = ''number''"
| "js_typeof (JStr s) = ''string''"
| "js_typeof (JArr xs) = ''object''"
| "js_typeof (JObj ps) = ''object''"

fun isArray :: "jsval \<Rightarrow> bool" where
  "isArray (JArr xs) = True"
| "isArray v = False"

text \<open>The \<open>switch (param.type)\<close> of \<open>validateArgs\<close>; an undeclared type checks nothing.\<close>

definition type_errors :: "ToolParameter \<Rightarrow> jsval \<Rightarrow> string list" where
  "type_errors p v =
     (if param_type p = ''string'' then
        (if js_typeof v \<noteq> ''string''
         then [''Parameter '' @ [CHR 0x27] @ param_name p @ [CHR 0x27] @ '' must be a string''] else [])
      else if param_type p = ''number'' then
        (if js_typeof v \<noteq> ''number''
         then [''Parameter '' @ [CHR 0x27] @ param_name p @ [CHR 0x27] @ '' must be a number''] else [])
      else if param_type p = ''boolean'' then
        (if js_typeof v \<noteq> ''boolean''
         then [''Parameter '' @ [CHR 0x27] @ param_name p @ [CHR 0x27] @ '' must be a boolean''] else [])
      else if param_type p = ''array'' then
        (if \<not> isArray v
         then [''Parameter '' @ [CHR 0x27] @ param_name p @ [CHR 0x27] @ '' must be an array''] else [])
      else if param_type p = ''object'' then
        (if js_typeof v \<noteq> ''object'' \<or> v = JNull \<or> isArray v
         then [''Parameter '' @ [CHR 0x27] @ param_name p @ [CHR 0x27] @ '' must be an object''] else [])
      else [])"

text \<open>
  \<open>param.enum.includes(value)\<close>: the declared enumerations are arrays of strings, so
  only a string value can be a member.
\<close>

fun enum_includes :: "string list \<Rightarrow> jsval \<Rightarrow> bool" where
  "enum_includes vs (JStr s) = (s \<in> set vs)"
| "enum_includes vs v = False"

definition enum_errors :: "ToolParameter \<Rightarrow> jsval \<Rightarrow> string list" where
  "enum_errors p v =
     (case param_enum p of
        None \<Rightarrow> []
      | Some vs \<Rightarrow>
          (if enum_includes vs v then []
           else [''Parameter '' @ [CHR 0x27] @ param_name p @ [CHR 0x27] @ '' must be one of: ''
                 @ join '', '' vs]))"

text \<open>The body of the \<open>forEach\<close> in \<open>validateArgs\<close>, for one declared parameter.\<close>

definition validateParam :: "(string \<times> jsval) list \<Rightarrow> ToolParameter \<Rightarrow> string list" where
  "validateParam args p =
     (if param_required p \<and> \<not> has_prop args (param_name p)
      then [''Required parameter '' @ [CHR 0x27] @ param_name p @ [CHR 0x27] @ '' is missing'']
      else [])
     @ (case map_of args (param_name p) of
          None \<Rightarrow> []
        | Some v \<Rightarrow> type_errors p v @ enum_errors p v)"

definition validateArgs :: "ToolParameter list \<Rightarrow> (string \<times> jsval) list \<Rightarrow> string list" where
  "validateArgs params args = concat (map (validateParam args) params)"

text \<open>
  The three kinds of violation, written from the words of the specification: a required
  parameter that is missing, a supplied parameter whose value is not of the declared type,
  and a supplied parameter whose value is outside the declared enumeration.
\<close>

definition declared_type_ok :: "string \<Rightarrow> jsval \<Rightarrow> bool" where
  "declared_type_ok t v =
     (if t = ''string'' then (case v of JStr s \<Rightarrow> True | _ \<Rightarrow> False)
      else if t = ''number'' then (case v of JNum r \<Rightarrow> True | _ \<Rightarrow> False)
      else if t = ''boolean'' then (case v of JBool b \<Rightarrow> True | _ \<Rightarrow> False)
      else if t = ''array'' then (case v of JArr xs \<Rightarrow> True | _ \<Rightarrow> False)
      else if t = ''object'' then (case v of JObj ps \<Rightarrow> True | _ \<Rightarrow> False)
      else True)"

definition missing_required :: "(string \<times> jsval) list \<Rightarrow> ToolParameter \<Rightarrow> bool" where
  "missing_required args p = (param_required p \<and> map_of args (param_name p) = None)"

definition type_mismatch :: "(string \<times> jsval) list \<Rightarrow> ToolParameter \<Rightarrow> bool" where
  "type_mismatch args p =
     (case map_of args (param_name p) of
        None \<Rightarrow> False
      | Some v \<Rightarrow> \<not> declared_type_ok (param_type p) v)"

definition enum_violation :: "(string \<times> jsval) list \<Rightarrow> ToolParameter \<Rightarrow> bool" where
  "enum_violation args p =
     (case map_of args (param_name p) of
        None \<Rightarrow> False
      | Some v \<Rightarrow>
          (case param_enum p of
             None \<Rightarrow> False
           | Some vs \<Rightarrow> (case v of JStr s \<Rightarrow> s \<notin> set vs | _ \<Rightarrow> True)))"

section \<open>Tool results and the tool registry (base-tool.js)\<close>

record 'r ToolResult =
  success :: bool
  result :: "'r option"
  error :: "string option"

text \<open>
  A tool: its name, its declared parameters and its \<open>execute\<close> method, which runs on the
  session state \<open>'s\<close> and either throws or returns its report.
\<close>

record ('s, 'r) BaseTool =
  tool_name :: string
  tool_parameters :: "ToolParameter list"
  tool_execute :: "(string \<times> jsval) list \<Rightarrow> 's \<Rightarrow> (thrown + 'r) \<times> 's"

record ToolCall =
  call_id :: string
  call_name :: string
  call_arguments :: "(string \<times> jsval) list"

definition formatResult :: "'r \<Rightarrow> 'r ToolResult" where
  "formatResult r = \<lparr>success = True, result = Some r, error = None\<rparr>"

text \<open>\<open>error instanceof Error ? error.message : String(error)\<close>.\<close>

fun formatError :: "thrown \<Rightarrow> 'r ToolResult" where
  "formatError (ErrorObj msg) = \<lparr>success = False, result = None, error = Some msg\<rparr>"
| "formatError (ThrownString s) = \<lparr>success = False, result = None, error = Some s\<rparr>"

text \<open>
  \<open>ToolRegistry.execute\<close>. The registry is the \<open>Map\<close> from names to tools. The outer sum
  is the outcome of the method itself: \<open>Inl\<close> would be an exception leaving it.
\<close>

definition registry_execute ::
  "(string \<times> ('s, 'r) BaseTool) list \<Rightarrow> ToolCall \<Rightarrow> 's
     \<Rightarrow> (thrown + 'r ToolResult) \<times> 's" where
  "registry_execute tools toolCall st =
     (case map_of tools (call_name toolCall) of
        None \<Rightarrow>
          (Inr \<lparr>success = False, result = None,
                error = Some (''Unknown tool: '' @ call_name toolCall)\<rparr>, st)
      | Some tool \<Rightarrow>
          (let validationErrors = validateArgs (tool_parameters tool) (call_arguments toolCall)
           in if length validationErrors > 0
              then (Inr (formatError
                      (ThrownString (''Validation errors: '' @ join '', '' validationErrors))), st)
              else (case tool_execute tool (call_arguments toolCall) st of
                      (Inr r, st') \<Rightarrow> (Inr (formatResult r), st')
                    | (Inl e, st') \<Rightarrow> (Inr (formatError e), st'))))"

section \<open>The change tracker (change-tracker.js)\<close>

text \<open>
  A \<open>Change\<close>: \<open>oldContent = null\<close> says that the file did not exist, \<open>newContent = null\<close>
  that it was deleted. The random \<open>id\<close> is never read by the tracker and is left out.
\<close>

record Change =
  change_type :: string
  change_filePath :: string
  oldContent :: "string option"
  newContent :: "string option"
  change_timestamp :: nat

record UndoAction =
  action_type :: string
  action_change :: Change
  action_timestamp :: nat

record ChangeTracker =
  changes :: "(string \<times> Change list) list"
  undoStack :: "UndoAction list"
  redoStack :: "UndoAction list"
  maxHistorySize :: nat

definition new_ChangeTracker :: ChangeTracker where
  "new_ChangeTracker = \<lparr>changes = [], undoStack = [], redoStack = [], maxHistorySize = 100\<rparr>"

text \<open>\<open>recordChange\<close>: arrays grow at the end, \<open>shift()\<close> drops the first element.\<close>

definition recordChange :: "Env \<Rightarrow> Change \<Rightarrow> ChangeTracker \<Rightarrow> ChangeTracker" where
  "recordChange env change ct =
     (let filePath = change_filePath change;
          changes1 = AList.update filePath
                       ((case map_of (changes ct) filePath of None \<Rightarrow> [] | Some l \<Rightarrow> l) @ [change])
                       (changes ct);
          undo1 = undoStack ct @ [\<lparr>action_type = ''change'', action_change = change,
                                   action_timestamp = env_now env\<rparr>];
          undo2 = (if length undo1 > maxHistorySize ct then tl undo1 else undo1)
      in ct\<lparr>changes := changes1, undoStack := undo2, redoStack := []\<rparr>)"

text \<open>
  The state of a session: the file system the tools work on, the change tracker, and
  whether the global \<open>window.fileSystem\<close>, through which the tracker reaches the file
  system, is bound to it (otherwise it is \<open>undefined\<close>).
\<close>

record Session =
  fileSystem :: VirtualFileSystem
  changeTracker :: ChangeTracker
  window_fileSystem :: bool

definition new_Session :: Session where
  "new_Session = \<lparr>fileSystem = empty_fs, changeTracker = new_ChangeTracker,
                   window_fileSystem = True\<rparr>"

text \<open>\<open>revertCreate\<close>, \<open>revertEdit\<close>, \<open>revertDelete\<close> on the file system behind the global.\<close>

definition revertCreate :: "Change \<Rightarrow> VirtualFileSystem \<Rightarrow> VirtualFileSystem" where
  "revertCreate change fs = snd (deleteFile (change_filePath change) fs)"

definition revertEdit :: "Env \<Rightarrow> Change \<Rightarrow> VirtualFileSystem \<Rightarrow> VirtualFileSystem" where
  "revertEdit env change fs =
     (case oldContent change of
        None \<Rightarrow> fs
      | Some old \<Rightarrow> snd (updateFile env (change_filePath change) old fs))"

definition revertDelete :: "Env \<Rightarrow> Change \<Rightarrow> VirtualFileSystem \<Rightarrow> VirtualFileSystem" where
  "revertDelete env change fs =
     (case oldContent change of
        None \<Rightarrow> fs
      | Some old \<Rightarrow> snd (addFile env (change_filePath change) (Some old) ''file'' None None fs))"

definition applyCreate :: "Env \<Rightarrow> Change \<Rightarrow> VirtualFileSystem \<Rightarrow> VirtualFileSystem" where
  "applyCreate env change fs =
     (case newContent change of
        None \<Rightarrow> fs
      | Some new \<Rightarrow> snd (addFile env (change_filePath change) (Some new) ''file'' None None fs))"

definition applyEdit :: "Env \<Rightarrow> Change \<Rightarrow> VirtualFileSystem \<Rightarrow> VirtualFileSystem" where
  "applyEdit env change fs =
     (case newContent change of
        None \<Rightarrow> fs
      | Some new \<Rightarrow> snd (updateFile env (change_filePath change) new fs))"

definition applyDelete :: "Change \<Rightarrow> VirtualFileSystem \<Rightarrow> VirtualFileSystem" where
  "applyDelete change fs = snd (deleteFile (change_filePath change) fs)"

text \<open>
  \<open>revertChange\<close> and \<open>applyChange\<close>: the \<open>switch\<close> on the type throws on any other type.
  With \<open>window.fileSystem\<close> unbound each of the six handlers does nothing.
\<close>

definition revertChange :: "Env \<Rightarrow> Change \<Rightarrow> Session \<Rightarrow> thrown + Session" where
  "revertChange env change w =
     (if change_type change = ''create''
      then Inr (if window_fileSystem w
                then w\<lparr>fileSystem := revertCreate change (fileSystem w)\<rparr> else w)
      else if change_type change = ''edit''
      then Inr (if window_fileSystem w
                then w\<lparr>fileSystem := revertEdit env change (fileSystem w)\<rparr> else w)
      else if change_type change = ''delete''
      then Inr (if window_fileSystem w
                then w\<lparr>fileSystem := revertDelete env change (fileSystem w)\<rparr> else w)
      else Inl (ErrorObj (''Unknown change type: '' @ change_type change)))"

definition applyChange :: "Env \<Rightarrow> Change \<Rightarrow> Session \<Rightarrow> thrown + Session" where
  "applyChange env change w =
     (if change_type change = ''create''
      then Inr (if window_fileSystem w
                then w\<lparr>fileSystem := applyCreate env change (fileSystem w)\<rparr> else w)
      else if change_type change = ''edit''
      then Inr (if window_fileSystem w
                then w\<lparr>fileSystem := applyEdit env change (fileSystem w)\<rparr> else w)
      else if change_type change = ''delete''
      then Inr (if window_fileSystem w
                then w\<lparr>fileSystem := applyDelete change (fileSystem w)\<rparr> else w)
      else Inl (ErrorObj (''Unknown change type: '' @ change_type change)))"

text \<open>
  \<open>undo\<close> and \<open>redo\<close>: \<open>Inr False\<close> on an empty stack; when the handler throws, the action
  is pushed back and the error is thrown on.
\<close>

definition undo :: "Env \<Rightarrow> Session \<Rightarrow> (thrown + bool) \<times> Session" where
  "undo env w =
     (let ct = changeTracker w in
      if length (undoStack ct) = 0 then (Inr False, w)
      else (let action = last (undoStack ct);
                w1 = w\<lparr>changeTracker := ct\<lparr>undoStack := butlast (undoStack ct)\<rparr>\<rparr>
            in case revertChange env (action_change action) w1 of
                 Inr w2 \<Rightarrow>
                   (Inr True,
                    w2\<lparr>changeTracker := (changeTracker w2)
                          \<lparr>redoStack := redoStack (changeTracker w2) @ [action]\<rparr>\<rparr>)
               | Inl e \<Rightarrow>
                   (Inl e,
                    w1\<lparr>changeTracker := (changeTracker w1)
                          \<lparr>undoStack := undoStack (changeTracker w1) @ [action]\<rparr>\<rparr>)))"

definition redo :: "Env \<Rightarrow> Session \<Rightarrow> (thrown + bool) \<times> Session" where
  "redo env w =
     (let ct = changeTracker w in
      if length (redoStack ct) = 0 then (Inr False, w)
      else (let action = last (redoStack ct);
                w1 = w\<lparr>changeTracker := ct\<lparr>redoStack := butlast (redoStack ct)\<rparr>\<rparr>
            in case applyChange env (action_change action) w1 of
                 Inr w2 \<Rightarrow>
                   (Inr True,
                    w2\<lparr>changeTracker := (changeTracker w2)
                          \<lparr>undoStack := undoStack (changeTracker w2) @ [action]\<rparr>\<rparr>)
               | Inl e \<Rightarrow>
                   (Inl e,
                    w1\<lparr>changeTracker := (changeTracker w1)
                          \<lparr>redoStack := redoStack (changeTracker w1) @ [action]\<rparr>\<rparr>)))"

definition canUndo :: "Session \<Rightarrow> bool" where
  "canUndo w = (length (undoStack (changeTracker w)) > 0)"

definition canRedo :: "Session \<Rightarrow> bool" where
  "canRedo w = (length (redoStack (changeTracker w)) > 0)"

section \<open>The file tools (file-tools.js)\<close>

text \<open>
  What a tool returns on success. The reports of \<open>write_file\<close> and \<open>create_file\<close> print the
  size of the file through \<open>Utils.formatFileSize\<close>, which computes with floating-point
  logarithms; such a report is kept as the text before the size, the size in bytes and
  the text after it.
\<close>

datatype report = Text string | WithSize string nat string

definition mk_change :: "Env \<Rightarrow> string \<Rightarrow> string \<Rightarrow> string option \<Rightarrow> string option \<Rightarrow> Change" where
  "mk_change env typ filePath old new =
     \<lparr>change_type = typ, change_filePath = filePath, oldContent = old, newContent = new,
      change_timestamp = env_now env\<rparr>"

definition line_count :: "string \<Rightarrow> nat" where
  "line_count content = length (split_char (CHR 0x0A) content)"

text \<open>\<open>WriteFileTool.execute\<close> with \<open>file_path\<close> and \<open>content\<close> strings.\<close>

definition write_file :: "Env \<Rightarrow> string \<Rightarrow> string \<Rightarrow> Session \<Rightarrow> (thrown + report) \<times> Session" where
  "write_file env file_path content w =
     (let (existingFile, fs1) = getFile env file_path (fileSystem w);
          old = (case existingFile of None \<Rightarrow> None | Some f \<Rightarrow> fe_content f);
          (file, fs2) = updateFile env file_path content fs1;
          changeType = (if existingFile \<noteq> None then ''edit'' else ''create'');
          ct = recordChange env (mk_change env changeType file_path old (Some content))
                 (changeTracker w);
          action = (if existingFile \<noteq> None then ''Updated'' else ''Created'')
      in (Inr (WithSize (action @ '' file: '' @ file_path @ [CHR 0x0A, CHR 0x0A] @ ''**Size:** '')
                 (fe_size file)
                 ([CHR 0x0A] @ ''**Lines:** '' @ string_of_nat (line_count content))),
          w\<lparr>fileSystem := fs2, changeTracker := ct\<rparr>))"

text \<open>
  The replacement text of \<open>String.prototype.replace\<close> for a pattern without capturing
  groups: \<open>$$\<close> stands for a dollar sign, \<open>$&\<close> for the matched text, the dollar sign with a
  back quote for the text before the match and with a quote for the text after it; any
  other dollar sign stands for itself.
\<close>

fun getSubstitution :: "string \<Rightarrow> string \<Rightarrow> string \<Rightarrow> string \<Rightarrow> string" where
  "getSubstitution matched pre post (c # d # rest) =
     (if c = CHR ''$'' then
        (if d = CHR ''$'' then CHR ''$'' # getSubstitution matched pre post rest
         else if d = CHR ''&'' then matched @ getSubstitution matched pre post rest
         else if d = CHR 0x60 then pre @ getSubstitution matched pre post rest
         else if d = CHR 0x27 then post @ getSubstitution matched pre post rest
         else c # getSubstitution matched pre post (d # rest))
      else c # getSubstitution matched pre post (d # rest))"
| "getSubstitution matched pre post t = t"

text \<open>\<open>str.replace(pat, tmpl)\<close> for a string pattern: the first occurrence only.\<close>

definition replace_first :: "string \<Rightarrow> string \<Rightarrow> string \<Rightarrow> string" where
  "replace_first pat tmpl str =
     (case indexOf str pat of
        None \<Rightarrow> str
      | Some i \<Rightarrow>
          take i str
          @ getSubstitution pat (take i str) (drop (i + length pat) str) tmpl
          @ drop (i + length pat) str)"

text \<open>
  \<open>str.replace(new RegExp(escapeRegex(pat), 'g'), tmpl)\<close>: the escaped pattern matches
  \<open>pat\<close> itself; every match found left to right is replaced, the search resuming
  behind the match. \<open>whole\<close> is \<open>str\<close>, \<open>pos\<close> the position reached.
\<close>

fun replace_from :: "string \<Rightarrow> string \<Rightarrow> string \<Rightarrow> nat \<Rightarrow> string \<Rightarrow> string" where
  "replace_from pat tmpl whole pos [] =
     (if pat = [] then getSubstitution [] whole [] tmpl else [])"
| "replace_from pat tmpl whole pos (c # cs) =
     (if pat = []
      then getSubstitution [] (take pos whole) (c # cs) tmpl
           @ c # replace_from pat tmpl whole (Suc pos) cs
      else if startsWith (c # cs) pat
      then getSubstitution pat (take pos whole) (drop (length pat - 1) cs) tmpl
           @ replace_from pat tmpl whole (pos + length pat) (drop (length pat - 1) cs)
      else c # replace_from pat tmpl whole (Suc pos) cs)"

definition replace_all_matches :: "string \<Rightarrow> string \<Rightarrow> string \<Rightarrow> string" where
  "replace_all_matches pat tmpl str = replace_from pat tmpl str 0 str"

text \<open>\<open>s.substring(0, 100)\<close> followed by an ellipsis for a longer \<open>s\<close>.\<close>

definition preview :: "string \<Rightarrow> string" where
  "preview s = take 100 s @ (if length s > 100 then ''...'' else [])"

text \<open>
  \<open>EditFileTool.execute\<close> with string arguments and \<open>replace_all\<close> a boolean (\<open>false\<close> when
  absent). The \<open>catch\<close> rethrows every error with the prefix.
\<close>

definition edit_file ::
  "Env \<Rightarrow> string \<Rightarrow> string \<Rightarrow> string \<Rightarrow> bool \<Rightarrow> Session \<Rightarrow> (thrown + report) \<times> Session" where
  "edit_file env file_path old_content new_content replace_all w =
     (let (file, fs1) = getFile env file_path (fileSystem w);
          w1 = w\<lparr>fileSystem := fs1\<rparr>
      in case file of
           None \<Rightarrow> (Inl (ErrorObj (''Failed to edit file: File not found: '' @ file_path)), w1)
         | Some f \<Rightarrow>
             (if fe_type f = ''directory''
              then (Inl (ErrorObj (''Failed to edit file: Path is a directory, not a file: ''
                                   @ file_path)), w1)
              else (case fe_content f of
                 None \<Rightarrow> (Inl (ErrorObj (''Failed to edit file: Cannot read properties of null''
                                   @ '' (reading includes)'')), w1)
               | Some originalContent \<Rightarrow>
                   (if \<not> js_includes originalContent old_content
                    then (Inl (ErrorObj (''Failed to edit file: Content not found in file. ''
                            @ ''Make sure the content matches exactly, including whitespace ''
                            @ ''and line breaks.'')), w1)
                    else (let occurrences = count_matches old_content originalContent in
                      if \<not> replace_all \<and> occurrences > 1
                      then (Inl (ErrorObj (''Failed to edit file: Content appears ''
                              @ string_of_nat occurrences
                              @ '' times in the file. Use replace_all: true to replace all ''
                              @ ''occurrences, or provide more specific content to match ''
                              @ ''only one occurrence.'')), w1)
                      else (let newFileContent =
                                  (if replace_all
                                   then replace_all_matches old_content new_content originalContent
                                   else replace_first old_content new_content originalContent);
                                fs2 = snd (updateFile env file_path newFileContent fs1);
                                ct = recordChange env
                                       (mk_change env ''edit'' file_path (Some originalContent)
                                          (Some newFileContent))
                                       (changeTracker w);
                                replacedCount = (if replace_all then occurrences else 1)
                            in (Inr (Text (''Successfully edited file: '' @ file_path
                                  @ [CHR 0x0A, CHR 0x0A] @ ''**Replacements made:** ''
                                  @ string_of_nat replacedCount
                                  @ [CHR 0x0A] @ ''**Old content:** '' @ preview old_content
                                  @ [CHR 0x0A] @ ''**New content:** '' @ preview new_content)),
                                w\<lparr>fileSystem := fs2, changeTracker := ct\<rparr>)))))))"

text \<open>\<open>fileName.replace(/\.[^.]*$/, '')\<close>: the name without its last extension.\<close>

definition strip_extension :: "string \<Rightarrow> string" where
  "strip_extension fileName =
     (if CHR ''.'' \<in> set fileName
      then join ''.'' (butlast (split_char (CHR ''.'') fileName))
      else fileName)"

text \<open>The templates of \<open>CreateFileTool\<close>.\<close>

definition getCodeTemplate :: "string \<Rightarrow> string \<Rightarrow> string" where
  "getCodeTemplate extension fileName =
     (if extension = ''js'' then
        ''/**'' @ [CHR 0x0A] @ '' * '' @ fileName @ [CHR 0x0A] @ '' */'' @ [CHR 0x0A]
        @ [CHR 0x0A] @ ''// TODO: Implement functionality'' @ [CHR 0x0A]
      else if extension = ''ts'' then
        ''/**'' @ [CHR 0x0A] @ '' * '' @ fileName @ [CHR 0x0A] @ '' */'' @ [CHR 0x0A]
        @ [CHR 0x0A] @ ''// TODO: Implement functionality'' @ [CHR 0x0A] @ ''export {};''
        @ [CHR 0x0A]
      else if extension = ''py'' then
        ''#!/usr/bin/env python3'' @ [CHR 0x0A] @ [CHR 0x22] @ [CHR 0x22] @ [CHR 0x22]
        @ [CHR 0x0A] @ fileName @ [CHR 0x0A] @ [CHR 0x22] @ [CHR 0x22] @ [CHR 0x22]
        @ [CHR 0x0A] @ [CHR 0x0A] @ ''# TODO: Implement functionality'' @ [CHR 0x0A]
      else if extension = ''java'' then
        ''public class '' @ strip_extension fileName @ '' {'' @ [CHR 0x0A]
        @ ''    // TODO: Implement functionality'' @ [CHR 0x0A] @ ''}'' @ [CHR 0x0A]
      else if extension = ''cpp'' then
        ''#include <iostream>'' @ [CHR 0x0A] @ [CHR 0x0A] @ ''int main() {'' @ [CHR 0x0A]
        @ ''    // TODO: Implement functionality'' @ [CHR 0x0A] @ ''    return 0;''
        @ [CHR 0x0A] @ ''}'' @ [CHR 0x0A]
      else if extension = ''html'' then
        ''<!DOCTYPE html>'' @ [CHR 0x0A] @ ''<html lang='' @ [CHR 0x22] @ ''en''
        @ [CHR 0x22] @ ''>'' @ [CHR 0x0A] @ ''<head>'' @ [CHR 0x0A] @ ''    <meta charset=''
        @ [CHR 0x22] @ ''UTF-8'' @ [CHR 0x22] @ ''>'' @ [CHR 0x0A] @ ''    <meta name=''
        @ [CHR 0x22] @ ''viewport'' @ [CHR 0x22] @ '' content='' @ [CHR 0x22]
        @ ''width=device-width, initial-scale=1.0'' @ [CHR 0x22] @ ''>'' @ [CHR 0x0A]
        @ ''    <title>Document</title>'' @ [CHR 0x0A] @ ''</head>'' @ [CHR 0x0A] @ ''<body>''
        @ [CHR 0x0A] @ ''    <!-- TODO: Add content -->'' @ [CHR 0x0A] @ ''</body>''
        @ [CHR 0x0A] @ ''</html>'' @ [CHR 0x0A]
      else if extension = ''css'' then
        ''/* '' @ fileName @ '' */'' @ [CHR 0x0A] @ [CHR 0x0A] @ ''/* TODO: Add styles */''
        @ [CHR 0x0A]
      else
        ''// '' @ fileName @ [CHR 0x0A] @ [CHR 0x0A] @ ''// TODO: Implement functionality''
        @ [CHR 0x0A])"

definition getConfigTemplate :: "string \<Rightarrow> string" where
  "getConfigTemplate extension =
     (if extension = ''json'' then
        ''{'' @ [CHR 0x0A] @ ''    '' @ [CHR 0x22] @ ''name'' @ [CHR 0x22] @ '': ''
        @ [CHR 0x22] @ ''project'' @ [CHR 0x22] @ '','' @ [CHR 0x0A] @ ''    '' @ [CHR 0x22]
        @ ''version'' @ [CHR 0x22] @ '': '' @ [CHR 0x22] @ ''1.0.0'' @ [CHR 0x22] @ [CHR 0x0A]
        @ ''}'' @ [CHR 0x0A]
      else if extension = ''yaml'' \<or> extension = ''yml'' then
        ''name: project'' @ [CHR 0x0A] @ ''version: 1.0.0'' @ [CHR 0x0A]
      else if extension = ''toml'' then
        ''[project]'' @ [CHR 0x0A] @ ''name = '' @ [CHR 0x22] @ ''project'' @ [CHR 0x22]
        @ [CHR 0x0A] @ ''version = '' @ [CHR 0x22] @ ''1.0.0'' @ [CHR 0x22] @ [CHR 0x0A]
      else if extension = ''ini'' then
        ''[DEFAULT]'' @ [CHR 0x0A] @ ''name = project'' @ [CHR 0x0A] @ ''version = 1.0.0''
        @ [CHR 0x0A]
      else
        ''# Configuration file'' @ [CHR 0x0A])"

definition getMarkdownTemplate :: "string \<Rightarrow> string" where
  "getMarkdownTemplate fileName =
     (let title = map (\<lambda>c. if c = CHR ''-'' \<or> c = CHR ''_'' then CHR '' '' else c)
                    (strip_extension fileName)
      in ''# '' @ title @ [CHR 0x0A] @ [CHR 0x0A] @ ''## Overview'' @ [CHR 0x0A]
         @ [CHR 0x0A] @ ''TODO: Add description'' @ [CHR 0x0A] @ [CHR 0x0A] @ ''## Usage''
         @ [CHR 0x0A] @ [CHR 0x0A] @ ''TODO: Add usage instructions'' @ [CHR 0x0A])"

definition getTemplateContent :: "string \<Rightarrow> string \<Rightarrow> string" where
  "getTemplateContent filePath fileType =
     (let extension = getFileExtension filePath; fileName = getFileName filePath in
      if fileType = ''code'' then getCodeTemplate extension fileName
      else if fileType = ''config'' then getConfigTemplate extension
      else if fileType = ''markdown'' then getMarkdownTemplate fileName
      else [])"

text \<open>
  \<open>CreateFileTool.execute\<close> with string arguments (\<open>content\<close> is \<open>''\<close> and \<open>file_type\<close> is
  \<open>'text'\<close> when absent).
\<close>

definition create_file ::
  "Env \<Rightarrow> string \<Rightarrow> string \<Rightarrow> string \<Rightarrow> Session \<Rightarrow> (thrown + report) \<times> Session" where
  "create_file env file_path content file_type w =
     (let (existingFile, fs1) = getFile env file_path (fileSystem w) in
      case existingFile of
        Some f \<Rightarrow>
          (Inl (ErrorObj (''Failed to create file: File already exists: '' @ file_path
                  @ ''. Use write_file or edit_file to modify existing files.'')),
           w\<lparr>fileSystem := fs1\<rparr>)
      | None \<Rightarrow>
          (let finalContent = (if content = [] \<and> file_type \<noteq> []
                               then getTemplateContent file_path file_type else content);
               (file, fs2) = addFile env file_path (Some finalContent) ''file'' None None fs1;
               ct = recordChange env (mk_change env ''create'' file_path None (Some finalContent))
                      (changeTracker w)
           in (Inr (WithSize (''Created new file: '' @ file_path @ [CHR 0x0A, CHR 0x0A]
                       @ ''**Type:** '' @ file_type @ [CHR 0x0A] @ ''**Size:** '')
                      (fe_size file)
                      ([CHR 0x0A] @ ''**Lines:** '' @ string_of_nat (line_count finalContent))),
               w\<lparr>fileSystem := fs2, changeTracker := ct\<rparr>)))"

text \<open>\<open>DeleteFileTool.execute\<close> with \<open>file_path\<close> a string and \<open>confirm\<close> a boolean.\<close>

definition delete_file :: "Env \<Rightarrow> string \<Rightarrow> bool \<Rightarrow> Session \<Rightarrow> (thrown + report) \<times> Session" where
  "delete_file env file_path confirm w =
     (if \<not> confirm
      then (Inl (ErrorObj ''Deletion must be confirmed by setting confirm: true''), w)
      else (let (file, fs1) = getFile env file_path (fileSystem w);
                w1 = w\<lparr>fileSystem := fs1\<rparr>
            in case file of
                 None \<Rightarrow> (Inl (ErrorObj (''Failed to delete file: File not found: '' @ file_path)), w1)
               | Some f \<Rightarrow>
                   (if fe_type f = ''directory''
                    then (Inl (ErrorObj (''Failed to delete file: Cannot delete directory with ''
                                 @ ''this tool: '' @ file_path)), w1)
                    else (let (deleted, fs2) = deleteFile file_path fs1 in
                          if \<not> deleted
                          then (Inl (ErrorObj (''Failed to delete file: Failed to delete file: ''
                                       @ file_path)), w1)
                          else (Inr (Text (''Deleted file: '' @ file_path)),
                                w\<lparr>fileSystem := fs2,
                                  changeTracker :=
                                    recordChange env
                                      (mk_change env ''delete'' file_path (fe_content f) None)
                                      (changeTracker w)\<rparr>)))))"

section \<open>The context manager (class ContextManager, utils.js)\<close>

text \<open>
  The outcome of a method that may throw and that the model may not cover: \<open>NotModelled\<close>
  stands for a search with a query outside the fragment of \<open>calculateRelevanceScore\<close>.
\<close>

datatype 'a outcome = Returns 'a | Throws thrown | NotModelled

record UserIntent =
  intent_type :: string
  targetFiles :: "string list"
  intent_keywords :: "string list"
  operation :: string
  concepts :: "string list"

text \<open>
  The pattern for file paths in \<open>analyzeIntent\<close>,
  \<open>/(?:^|\s)([.\w/-]+\.[a-zA-Z0-9]+)(?:\s|$|[.,!?])/g\<close>.
\<close>

definition is_alnum_char :: "char \<Rightarrow> bool" where
  "is_alnum_char c = (is_word_char c \<and> c \<noteq> CHR ''_'')"

definition re_filePath :: regex where
  "re_filePath =
     seqs [Alt Bol re_s,
           Cap (seqs [rep1 (Sym (\<lambda>c. is_word_char c \<or> c \<in> set ''./-'')), lit ''.'',
                      rep1 (Sym is_alnum_char)]),
           alts [re_s, Eol, Sym (\<lambda>c. c \<in> set ''.,!?'')]]"

text \<open>
  The \<open>while ((match = regex.exec(prompt)) !== null)\<close> loop of a global pattern: each
  search resumes where the previous match ended. The pattern matches no empty string, so
  every match leaves less input; the loop is written to stop otherwise.
\<close>

fun exec_all :: "regex \<Rightarrow> nat \<Rightarrow> string \<Rightarrow> string list" where
  "exec_all r pos s =
     (case search_from r pos s of
        None \<Rightarrow> []
      | Some st \<Rightarrow>
          (let g = (case snd (snd st) of None \<Rightarrow> [] | Some g \<Rightarrow> g) in
           if length (fst (snd st)) < length s
           then g # exec_all r (fst st) (fst (snd st))
           else [g]))"

definition keyword_stopWords :: "string list" where
  "keyword_stopWords =
     [''the'', ''a'', ''an'', ''and'', ''or'', ''but'', ''in'', ''on'', ''at'', ''to'', ''for'', ''of'',
      ''with'', ''by'', ''from'', ''up'', ''about'', ''into'', ''through'', ''during'', ''before'',
      ''after'', ''above'', ''below'', ''can'', ''could'', ''should'', ''would'', ''will'', ''shall'',
      ''may'', ''might'', ''must'', ''i'', ''you'', ''he'', ''she'', ''it'', ''we'', ''they'', ''me'',
      ''him'', ''her'', ''us'', ''them'', ''this'', ''that'', ''these'', ''those'', ''is'', ''are'',
      ''was'', ''were'', ''be'', ''been'', ''being'', ''have'', ''has'', ''had'', ''do'', ''does'',
      ''did'', ''get'', ''got'', ''make'', ''let'', ''put'']"

text \<open>\<open>extractKeywords\<close>; \<open>[...new Set(words)]\<close> keeps the first occurrence of each word.\<close>

definition extractKeywords :: "string \<Rightarrow> string list" where
  "extractKeywords prompt =
     foldl (\<lambda>seen word. set_add word seen) []
       (filter (\<lambda>word. length word > 2 \<and> word \<notin> set keyword_stopWords)
          (split_ws (strip_punctuation (toLowerCase prompt))))"

text \<open>
  A case-insensitive test for one of several literal alternatives, as in
  \<open>/create|add|new/i.test(prompt)\<close>.
\<close>

definition mentions :: "string \<Rightarrow> string list \<Rightarrow> bool" where
  "mentions prompt alternatives = list_ex (js_includes (toLowerCase prompt)) alternatives"

definition conceptPatterns :: "(string \<times> string list) list" where
  "conceptPatterns =
     [(''authentication'', [''auth'', ''login'', ''password'', ''session'', ''token'', ''jwt'', ''oauth'']),
      (''database'', [''database'', ''db'', ''sql'', ''query'', ''table'', ''schema'', ''migration'']),
      (''api'', [''api'', ''endpoint'', ''rest'', ''graphql'', ''http'', ''request'', ''response'']),
      (''frontend'', [''frontend'', ''ui'', ''component'', ''react'', ''vue'', ''angular'', ''html'', ''css'']),
      (''backend'', [''backend'', ''server'', ''express'', ''node'', ''django'', ''flask'', ''spring'']),
      (''testing'', [''test'', ''testing'', ''spec'', ''unit'', ''integration'', ''e2e'', ''jest'', ''mocha'']),
      (''deployment'', [''deploy'', ''deployment'', ''docker'', ''kubernetes'', ''aws'', ''heroku'']),
      (''performance'', [''performance'', ''optimize'', ''speed'', ''cache'', ''lazy'', ''async'']),
      (''security'', [''security'', ''secure'', ''vulnerability'', ''xss'', ''csrf'', ''injection'']),
      (''error_handling'', [''error'', ''exception'', ''try'', ''catch'', ''throw'', ''handle''])]"

definition extractConcepts :: "string \<Rightarrow> string list" where
  "extractConcepts prompt =
     map fst (filter (\<lambda>entry. mentions prompt (snd entry)) conceptPatterns)"

definition analyzeIntent :: "string \<Rightarrow> UserIntent" where
  "analyzeIntent prompt =
     (let (op, typ) =
            (if mentions prompt [''create'', ''add'', ''new'', ''generate'', ''make'']
             then (''create'', ''create'')
             else if mentions prompt [''edit'', ''modify'', ''change'', ''update'', ''fix'', ''improve'',
                                      ''refactor'']
             then (''edit'', ''edit'')
             else if mentions prompt [''delete'', ''remove'', ''drop'']
             then (''delete'', ''delete'')
             else if mentions prompt [''find'', ''search'', ''locate'', ''show'', ''display'', ''list'']
             then (''read'', ''search'')
             else if mentions prompt [''bug'', ''error'', ''issue'', ''problem'', ''broken'',
                                      ''not working'']
             then (''fix'', ''debug'')
             else if mentions prompt [''test'', ''testing'', ''spec'', ''unit test'']
             then (''test'', ''test'')
             else (''read'', ''general''))
      in \<lparr>intent_type = typ, targetFiles = exec_all re_filePath 0 prompt,
          intent_keywords = extractKeywords prompt, operation = op,
          concepts = extractConcepts prompt\<rparr>)"

text \<open>
  \<open>RelevantFile\<close>. The content is that of a file entry, which is \<open>null\<close> for a
  directory (\<open>None\<close>). Scores are JavaScript numbers; they are modelled as exact
  rationals.
\<close>

record RelevantFile =
  rf_path :: string
  rf_content :: "string option"
  relevanceScore :: rat
  reason :: string
  rf_matchedLines :: "MatchedLine list"

subsection \<open>Imports and related files\<close>

definition re_quote :: regex where
  "re_quote = Sym (\<lambda>c. c = CHR 0x27 \<or> c = CHR 0x22)"

definition re_import_from :: regex where
  "re_import_from =
     seqs [Bol, lit ''import'', rep1 re_s,
           LazyStar (Sym (\<lambda>c. c \<noteq> CHR 0x0A \<and> c \<noteq> CHR 0x0D)),
           lit ''from'', rep1 re_s, re_quote,
           Cap (rep1 (Sym (\<lambda>c. c \<noteq> CHR 0x27 \<and> c \<noteq> CHR 0x22))), re_quote]"

definition re_require :: regex where
  "re_require =
     seqs [lit ''require'', Star re_s, lit ''('', Star re_s, re_quote,
           Cap (rep1 (Sym (\<lambda>c. c \<noteq> CHR 0x27 \<and> c \<noteq> CHR 0x22))), re_quote,
           Star re_s, lit '')'']"

definition re_py_from :: regex where
  "re_py_from =
     seqs [Bol, lit ''from'', rep1 re_s, Cap (rep1 (Sym (\<lambda>c. \<not> is_space_char c))),
           rep1 re_s, lit ''import'']"

definition re_py_import :: regex where
  "re_py_import = seqs [Bol, lit ''import'', rep1 re_s, Cap (rep1 (Sym (\<lambda>c. \<not> is_space_char c)))]"

definition re_include :: regex where
  "re_include =
     seqs [Bol, lit ''#include'', Star re_s, Sym (\<lambda>c. c = CHR 0x22 \<or> c = CHR ''<''),
           Cap (rep1 (Sym (\<lambda>c. c \<noteq> CHR 0x22 \<and> c \<noteq> CHR ''>''))),
           Sym (\<lambda>c. c = CHR 0x22 \<or> c = CHR ''>'')]"

text \<open>The import of one line: the first of the five patterns that matches decides.\<close>

definition line_import :: "string \<Rightarrow> string list" where
  "line_import line =
     (let trimmed = trim line in
      case match1 re_import_from trimmed of Some m \<Rightarrow> [m] | None \<Rightarrow>
     (case match1 re_require trimmed of Some m \<Rightarrow> [m] | None \<Rightarrow>
     (case match1 re_py_from trimmed of Some m \<Rightarrow> [m] | None \<Rightarrow>
     (case match1 re_py_import trimmed of Some m \<Rightarrow> [m] | None \<Rightarrow>
     (case match1 re_include trimmed of Some m \<Rightarrow> [m] | None \<Rightarrow> [])))))"

definition extractImports :: "string \<Rightarrow> string list" where
  "extractImports content = concat (map line_import (split_char (CHR 0x0A) content))"

text \<open>\<open>resolvePath(base, relative)\<close>; \<open>pop()\<close> on an empty array does nothing.\<close>

definition resolvePath :: "string \<Rightarrow> string \<Rightarrow> string" where
  "resolvePath base relative =
     join ''/''
       (foldl (\<lambda>resolved part.
                 if part = ''..'' then butlast resolved
                 else if part \<noteq> ''.'' \<and> part \<noteq> [] then resolved @ [part]
                 else resolved)
          [] (split_char (CHR ''/'') base @ split_char (CHR ''/'') relative))"

text \<open>\<open>this.fileSystem.files.has(path)\<close> and the first path of a list that the store has.\<close>

definition has_file :: "VirtualFileSystem \<Rightarrow> string \<Rightarrow> bool" where
  "has_file fs path = (map_of (files fs) path \<noteq> None)"

definition first_existing :: "VirtualFileSystem \<Rightarrow> string list \<Rightarrow> string option" where
  "first_existing fs paths =
     (case filter (has_file fs) paths of [] \<Rightarrow> None | p # ps \<Rightarrow> Some p)"

text \<open>
  \<open>resolveImportPath(importPath, fromFile)\<close>; \<open>fromFile\<close> is \<open>None\<close> for \<open>undefined\<close>. A
  relative import that none of the extensions resolves falls through to the second list.
\<close>

definition resolveImportPath :: "VirtualFileSystem \<Rightarrow> string \<Rightarrow> string option \<Rightarrow> string option" where
  "resolveImportPath fs importPath fromFile =
     (let possiblePaths =
            first_existing fs
              [importPath, ''src/'' @ importPath, ''lib/'' @ importPath, importPath @ ''.js'',
               importPath @ ''.ts'', ''src/'' @ importPath @ ''.js'', ''src/'' @ importPath @ ''.ts'']
      in if startsWith importPath ''./'' \<or> startsWith importPath ''../''
         then (case fromFile of
                 None \<Rightarrow> None
               | Some from \<Rightarrow>
                   (if from = [] then None
                    else (let resolved = resolvePath (getDirectoryPath from) importPath in
                          case first_existing fs
                                 (map (\<lambda>ext. resolved @ ext)
                                    [[], ''.js'', ''.ts'', ''.jsx'', ''.tsx'', ''/index.js'',
                                     ''/index.ts''])
                          of Some testPath \<Rightarrow> Some testPath
                           | None \<Rightarrow> possiblePaths)))
         else possiblePaths)"

text \<open>
  The imports of the files selected so far, as the \<open>Set\<close> collects them; \<open>extractImports\<close>
  throws on a \<open>null\<close> content.
\<close>

fun collect_imports :: "RelevantFile list \<Rightarrow> string list \<Rightarrow> thrown + string list" where
  "collect_imports [] imports = Inr imports"
| "collect_imports (f # fs) imports =
     (case rf_content f of
        None \<Rightarrow> Inl (ErrorObj ''Cannot read properties of null (reading split)'')
      | Some c \<Rightarrow> collect_imports fs (foldl (\<lambda>s imp. set_add imp s) imports (extractImports c)))"

text \<open>
  The second loop of \<open>findRelatedFiles\<close>, over the imports; an empty resolved path is
  falsy and skipped.
\<close>

fun related_loop ::
  "Env \<Rightarrow> string option \<Rightarrow> string list \<Rightarrow> RelevantFile list \<Rightarrow> VirtualFileSystem
     \<Rightarrow> RelevantFile list \<times> VirtualFileSystem" where
  "related_loop env fromFile [] relatedFiles fs = (relatedFiles, fs)"
| "related_loop env fromFile (importPath # rest) relatedFiles fs =
     (if length relatedFiles \<ge> 3 then (relatedFiles, fs)
      else (case resolveImportPath fs importPath fromFile of
              None \<Rightarrow> related_loop env fromFile rest relatedFiles fs
            | Some resolvedPath \<Rightarrow>
                (let (file, fs1) =
                       (if resolvedPath = [] then (None, fs) else getFile env resolvedPath fs) in
                 case file of
                   None \<Rightarrow> related_loop env fromFile rest relatedFiles fs1
                 | Some f \<Rightarrow>
                     related_loop env fromFile rest
                       (relatedFiles @
                          [\<lparr>rf_path = resolvedPath, rf_content = fe_content f,
                            relevanceScore = 6 / 10, reason = ''dependency'',
                            rf_matchedLines = []\<rparr>])
                       fs1)))"

definition findRelatedFiles ::
  "Env \<Rightarrow> RelevantFile list \<Rightarrow> VirtualFileSystem
     \<Rightarrow> (thrown + RelevantFile list) \<times> VirtualFileSystem" where
  "findRelatedFiles env relevantFiles fs =
     (case collect_imports relevantFiles [] of
        Inl e \<Rightarrow> (Inl e, fs)
      | Inr imports \<Rightarrow>
          (let (related, fs1) =
                 related_loop env (map_option rf_path (case relevantFiles of [] \<Rightarrow> None
                                                       | f # fs \<Rightarrow> Some f))
                   imports [] fs
           in (Inr related, fs1)))"

subsection \<open>Selecting the relevant files\<close>

text \<open>
  The state of \<open>findRelevantFiles\<close>: the array \<open>relevantFiles\<close>, the set \<open>seenPaths\<close> and
  the file system.
\<close>

type_synonym selection = "RelevantFile list \<times> string list \<times> VirtualFileSystem"

text \<open>Stage 1: the files the prompt names.\<close>

fun add_mentioned :: "Env \<Rightarrow> string list \<Rightarrow> selection \<Rightarrow> selection" where
  "add_mentioned env [] sel = sel"
| "add_mentioned env (filePath # rest) (relevantFiles, seenPaths, fs) =
     (if filePath \<in> set seenPaths then add_mentioned env rest (relevantFiles, seenPaths, fs)
      else (let (file, fs1) = getFile env filePath fs in
            case file of
              None \<Rightarrow> add_mentioned env rest (relevantFiles, seenPaths, fs1)
            | Some f \<Rightarrow>
                add_mentioned env rest
                  (relevantFiles @
                     [\<lparr>rf_path = filePath, rf_content = fe_content f, relevanceScore = 1,
                       reason = ''directly_mentioned'', rf_matchedLines = []\<rparr>],
                   set_add filePath seenPaths, fs1)))"

text \<open>Stage 2, inner loop: the results of one keyword, up to the first \<open>break\<close>.\<close>

fun add_results :: "Env \<Rightarrow> nat \<Rightarrow> FileSearchResult list \<Rightarrow> selection \<Rightarrow> selection" where
  "add_results env maxFiles [] sel = sel"
| "add_results env maxFiles (r # rest) (relevantFiles, seenPaths, fs) =
     (if fsr_filePath r \<in> set seenPaths \<or> length relevantFiles \<ge> maxFiles
      then (relevantFiles, seenPaths, fs)
      else (let (file, fs1) = getFile env (fsr_filePath r) fs in
            case file of
              None \<Rightarrow> add_results env maxFiles rest (relevantFiles, seenPaths, fs1)
            | Some f \<Rightarrow>
                add_results env maxFiles rest
                  (relevantFiles @
                     [\<lparr>rf_path = fsr_filePath r, rf_content = fe_content f,
                       relevanceScore = fsr_score r * (8 / 10),
                       reason = ''keyword_match'', rf_matchedLines = fsr_matchedLines r\<rparr>],
                   set_add (fsr_filePath r) seenPaths, fs1)))"

text \<open>Stage 2, outer loop over the keywords.\<close>

fun add_keywords :: "Env \<Rightarrow> nat \<Rightarrow> string list \<Rightarrow> selection \<Rightarrow> selection option" where
  "add_keywords env maxFiles [] sel = Some sel"
| "add_keywords env maxFiles (keyword # rest) (relevantFiles, seenPaths, fs) =
     (case searchFiles env keyword
             \<lparr>includeFilenames = True, includeContent = True, caseSensitive = False,
              maxResults = maxFiles * 2\<rparr> fs of
        (None, fs1) \<Rightarrow> None
      | (Some searchResults, fs1) \<Rightarrow>
          add_keywords env maxFiles rest
            (add_results env maxFiles searchResults (relevantFiles, seenPaths, fs1)))"

text \<open>Stage 3, the loop over the related files.\<close>

fun add_related :: "nat \<Rightarrow> RelevantFile list \<Rightarrow> RelevantFile list \<times> string list
     \<Rightarrow> RelevantFile list \<times> string list" where
  "add_related maxFiles [] sel = sel"
| "add_related maxFiles (relatedFile # rest) (relevantFiles, seenPaths) =
     (if rf_path relatedFile \<in> set seenPaths \<or> length relevantFiles \<ge> maxFiles
      then (relevantFiles, seenPaths)
      else add_related maxFiles rest
             (relevantFiles @ [relatedFile], set_add (rf_path relatedFile) seenPaths))"

text \<open>
  \<open>findRelevantFiles(intent, maxFiles)\<close>. The final \<open>sort\<close> is stable and orders by
  descending score.
\<close>

definition findRelevantFiles ::
  "Env \<Rightarrow> UserIntent \<Rightarrow> nat \<Rightarrow> VirtualFileSystem
     \<Rightarrow> RelevantFile list outcome \<times> VirtualFileSystem" where
  "findRelevantFiles env intent maxFiles fs =
     (let sel1 = add_mentioned env (targetFiles intent) ([], [], fs) in
      case (if length (intent_keywords intent) > 0 \<and> length (fst sel1) < maxFiles
            then add_keywords env maxFiles (take 3 (intent_keywords intent)) sel1
            else Some sel1) of
        None \<Rightarrow> (NotModelled, snd (snd sel1))
      | Some (relevantFiles, seenPaths, fs2) \<Rightarrow>
          (if length relevantFiles > 0 \<and> length relevantFiles < maxFiles
           then (case findRelatedFiles env relevantFiles fs2 of
                   (Inl e, fs3) \<Rightarrow> (Throws e, fs3)
                 | (Inr relatedFiles, fs3) \<Rightarrow>
                     (Returns (sort_key (\<lambda>f. - relevanceScore f)
                        (fst (add_related maxFiles relatedFiles (relevantFiles, seenPaths)))),
                      fs3))
           else (Returns (sort_key (\<lambda>f. - relevanceScore f) relevantFiles), fs2)))"

subsection \<open>Trimming the bundle to the budget\<close>

definition truncated_marker :: string where
  "truncated_marker = [CHR 0x0A, CHR 0x0A] @ ''... [truncated]''"

text \<open>The partial copy built in the \<open>else\<close> branch; \<open>c\<close> is \<open>file.content\<close>.\<close>

definition partialFile :: "int \<Rightarrow> RelevantFile \<Rightarrow> string \<Rightarrow> RelevantFile" where
  "partialFile remainingChars file c =
     \<lparr>rf_path = rf_path file,
      rf_content = Some (take (nat (remainingChars - 100)) c @ truncated_marker),
      relevanceScore = relevanceScore file * (7 / 10),
      reason = reason file @ ''_partial'',
      rf_matchedLines = rf_matchedLines file\<rparr>"

text \<open>
  The \<open>for\<close> loop of \<open>trimContextToLimit\<close>, with its two local variables. Reading
  \<open>.length\<close> of a \<open>null\<close> content throws a \<open>TypeError\<close>.
\<close>

fun trimLoop ::
  "int \<Rightarrow> int \<Rightarrow> RelevantFile list \<Rightarrow> RelevantFile list \<Rightarrow> thrown + RelevantFile list" where
  "trimLoop maxContextChars totalChars trimmedFiles [] = Inr trimmedFiles"
| "trimLoop maxContextChars totalChars trimmedFiles (file # rest) =
     (case rf_content file of
        None \<Rightarrow> Inl (ErrorObj ''Cannot read properties of null (reading length)'')
      | Some c \<Rightarrow>
          (let fileChars = int (length c) in
           if totalChars + fileChars \<le> maxContextChars
           then trimLoop maxContextChars (totalChars + fileChars) (trimmedFiles @ [file]) rest
           else (let remainingChars = maxContextChars - totalChars in
                 if remainingChars > 500
                 then Inr (trimmedFiles @ [partialFile remainingChars file c])
                 else Inr trimmedFiles)))"

definition trimContextToLimit :: "int \<Rightarrow> RelevantFile list \<Rightarrow> thrown + RelevantFile list" where
  "trimContextToLimit maxContextChars relevantFiles = trimLoop maxContextChars 0 [] relevantFiles"

text \<open>Length of the content a bundle entry carries, and of a whole bundle.\<close>

definition content_len :: "RelevantFile \<Rightarrow> int" where
  "content_len f = (case rf_content f of None \<Rightarrow> 0 | Some c \<Rightarrow> int (length c))"

definition total_len :: "RelevantFile list \<Rightarrow> int" where
  "total_len fs = sum_list (map content_len fs)"

text \<open>The entry the loop appends for the file at which the budget runs out, if any.\<close>

definition partial_tail :: "int \<Rightarrow> RelevantFile list \<Rightarrow> nat \<Rightarrow> RelevantFile list" where
  "partial_tail maxContextChars fs k =
     (if k < length fs \<and> maxContextChars - total_len (take k fs) > 500
      then [partialFile (maxContextChars - total_len (take k fs)) (fs ! k)
              (case rf_content (fs ! k) of None \<Rightarrow> [] | Some c \<Rightarrow> c)]
      else [])"

text \<open>A candidate with \<open>n\<close> characters of content, for the budget scenarios.\<close>

definition candidate :: "string \<Rightarrow> nat \<Rightarrow> RelevantFile" where
  "candidate p n =
     \<lparr>rf_path = p, rf_content = Some (replicate n (CHR ''x'')), relevanceScore = 1,
      reason = ''keyword_match'', rf_matchedLines = []\<rparr>"

text \<open>The declared parameters of \<open>edit_file\<close> (file-tools.js).\<close>

definition edit_file_parameters :: "ToolParameter list" where
  "edit_file_parameters =
     [\<lparr>param_name = ''file_path'', param_type = ''string'',
        param_description = ''Path to the file to edit'', param_required = True, param_enum = None\<rparr>,
      \<lparr>param_name = ''old_content'', param_type = ''string'',
        param_description = ''Content to replace (must match exactly)'', param_required = True,
        param_enum = None\<rparr>,
      \<lparr>param_name = ''new_content'', param_type = ''string'',
        param_description = ''New content to replace with'', param_required = True, param_enum = None\<rparr>,
      \<lparr>param_name = ''replace_all'', param_type = ''boolean'',
        param_description = ''Replace all occurrences (default: false)'', param_required = False,
        param_enum = None\<rparr>]"

section \<open>Sessions of tool calls\<close>

text \<open>
  The calls that record a change, each with the environment it runs in. \<open>run_ops\<close> runs a
  sequence of calls that all succeed, \<open>undo_times\<close> and \<open>redo_times\<close> a sequence of
  \<open>undo()\<close> and \<open>redo()\<close> calls that all return \<open>true\<close>.
\<close>

datatype tool_op =
    OpWrite Env string string
  | OpEdit Env string string string bool
  | OpCreate Env string string string
  | OpDelete Env string bool

fun run_op :: "tool_op \<Rightarrow> Session \<Rightarrow> (thrown + report) \<times> Session" where
  "run_op (OpWrite env file_path content) w = write_file env file_path content w"
| "run_op (OpEdit env file_path old_content new_content replace_all) w =
     edit_file env file_path old_content new_content replace_all w"
| "run_op (OpCreate env file_path content file_type) w = create_file env file_path content file_type w"
| "run_op (OpDelete env file_path confirm) w = delete_file env file_path confirm w"

fun run_ops :: "tool_op list \<Rightarrow> Session \<Rightarrow> Session option" where
  "run_ops [] w = Some w"
| "run_ops (x # xs) w =
     (case run_op x w of
        (Inr r, w') \<Rightarrow> run_ops xs w'
      | (Inl e, w') \<Rightarrow> None)"

fun undo_times :: "Env list \<Rightarrow> Session \<Rightarrow> Session option" where
  "undo_times [] w = Some w"
| "undo_times (e # es) w =
     (case undo e w of
        (Inr True, w') \<Rightarrow> undo_times es w'
      | (Inr False, w') \<Rightarrow> None
      | (Inl err, w') \<Rightarrow> None)"

fun redo_times :: "Env list \<Rightarrow> Session \<Rightarrow> Session option" where
  "redo_times [] w = Some w"
| "redo_times (e # es) w =
     (case redo e w of
        (Inr True, w') \<Rightarrow> redo_times es w'
      | (Inr False, w') \<Rightarrow> None
      | (Inl err, w') \<Rightarrow> None)"

definition start_session :: "VirtualFileSystem \<Rightarrow> bool \<Rightarrow> Session" where
  "start_session fs0 bound =
     \<lparr>fileSystem = fs0, changeTracker = new_ChangeTracker, window_fileSystem = bound\<rparr>"

subsection \<open>The invariant of a tracked session\<close>

text \<open>
  A recorded change is well formed when a create or an edit carries its new content. \<open>np\<close>
  is the path a change touches and \<open>eff\<close> the state it leaves there: \<open>None\<close> for no entry,
  \<open>Some c\<close> for an entry of content \<open>c\<close>. \<open>lastw cs p\<close> is the effect of the last change
  of \<open>cs\<close> that touches \<open>p\<close>. A session is tracked when every change of the undo stack is
  well formed and the store agrees, at every path, with the last change that touched it.
  \<open>rfs\<close> and \<open>afs\<close> are the file systems after reverting and after applying one change,
  \<open>b\<close> telling whether \<open>window.fileSystem\<close> is bound.
\<close>

definition wf_change :: "Change \<Rightarrow> bool" where
  "wf_change c =
     (((change_type c = ''create'' \<or> change_type c = ''edit'') \<and> newContent c \<noteq> None)
      \<or> change_type c = ''delete'')"

definition np :: "Change \<Rightarrow> string" where
  "np c = normalizePath (change_filePath c)"

definition eff :: "Change \<Rightarrow> string option option" where
  "eff c = (if change_type c = ''delete'' then None else Some (newContent c))"

fun lastw :: "Change list \<Rightarrow> string \<Rightarrow> string option option option" where
  "lastw [] p = None"
| "lastw (c # cs) p =
     (case lastw cs p of
        Some e \<Rightarrow> Some e
      | None \<Rightarrow> (if np c = p then Some (eff c) else None))"

definition tracked :: "Session \<Rightarrow> bool" where
  "tracked w =
     (list_all (\<lambda>a. wf_change (action_change a)) (undoStack (changeTracker w))
      \<and> (\<forall>p e. lastw (map action_change (undoStack (changeTracker w))) p = Some e
               \<longrightarrow> content_at (fileSystem w) p = e))"

definition rfs :: "bool \<Rightarrow> Env \<Rightarrow> Change \<Rightarrow> VirtualFileSystem \<Rightarrow> VirtualFileSystem" where
  "rfs b env c fs =
     (if \<not> b then fs
      else if change_type c = ''create'' then revertCreate c fs
      else if change_type c = ''edit'' then revertEdit env c fs
      else revertDelete env c fs)"

definition afs :: "bool \<Rightarrow> Env \<Rightarrow> Change \<Rightarrow> VirtualFileSystem \<Rightarrow> VirtualFileSystem" where
  "afs b env c fs =
     (if \<not> b then fs
      else if change_type c = ''create'' then applyCreate env c fs
      else if change_type c = ''edit'' then applyEdit env c fs
      else applyDelete c fs)"

fun revert_chain :: "bool \<Rightarrow> Env list \<Rightarrow> Change list \<Rightarrow> VirtualFileSystem \<Rightarrow> VirtualFileSystem" where
  "revert_chain b (e # es) (c # cs) fs = revert_chain b es cs (rfs b e c fs)"
| "revert_chain b es cs fs = fs"

fun apply_chain :: "bool \<Rightarrow> Env list \<Rightarrow> Change list \<Rightarrow> VirtualFileSystem \<Rightarrow> VirtualFileSystem" where
  "apply_chain b (e # es) (c # cs) fs = apply_chain b es cs (afs b e c fs)"
| "apply_chain b es cs fs = fs"

section \<open>Notions of the specification\<close>

text \<open>
  \<open>occurs_at s i p\<close>: the text \<open>p\<close> occurs verbatim in \<open>s\<close> at offset \<open>i\<close>.
  \<open>replace_plain p n s\<close>: \<open>s\<close> with the occurrences of \<open>p\<close>, found from left to right
  and not overlapping, each replaced by \<open>n\<close> as it stands.
\<close>

definition occurs_at :: "string \<Rightarrow> nat \<Rightarrow> string \<Rightarrow> bool" where
  "occurs_at s i p = (i + length p \<le> length s \<and> take (length p) (drop i s) = p)"

fun replace_plain :: "string \<Rightarrow> string \<Rightarrow> string \<Rightarrow> string" where
  "replace_plain p n [] = (if p = [] then n else [])"
| "replace_plain p n (c # cs) =
     (if p = [] then n @ c # replace_plain p n cs
      else if startsWith (c # cs) p then n @ replace_plain p n (drop (length p - 1) cs)
      else c # replace_plain p n cs)"

text \<open>The message of \<open>create_file\<close> on a path that exists.\<close>

definition already_exists_message :: "string \<Rightarrow> string" where
  "already_exists_message file_path =
     ''Failed to create file: File already exists: '' @ file_path
     @ ''. Use write_file or edit_file to modify existing files.''"

text \<open>A new session in which \<open>create_file\<close> has created one file.\<close>

definition session_with :: "string \<Rightarrow> string \<Rightarrow> Session" where
  "session_with path content = snd (create_file (no_cache 1) path content ''text'' new_Session)"

text \<open>
  \<open>create_file\<close> as a registered tool. The registry calls \<open>execute\<close> only with arguments
  that passed \<open>validateArgs\<close>: \<open>file_path\<close> is then a string, and \<open>content\<close> and
  \<open>file_type\<close> are strings or absent (the defaults of the destructuring apply). A
  \<open>file_path\<close> that is no string makes \<open>normalizePath\<close> throw.
\<close>

definition create_file_parameters :: "ToolParameter list" where
  "create_file_parameters =
     [\<lparr>param_name = ''file_path'', param_type = ''string'',
        param_description = ''Path for the new file'', param_required = True, param_enum = None\<rparr>,
      \<lparr>param_name = ''content'', param_type = ''string'',
        param_description = ''Initial content for the file'', param_required = False,
        param_enum = None\<rparr>,
      \<lparr>param_name = ''file_type'', param_type = ''string'',
        param_description = ''Type of file to create'', param_required = False,
        param_enum = Some [''text'', ''code'', ''config'', ''markdown'']\<rparr>]"

definition string_arg :: "(string \<times> jsval) list \<Rightarrow> string \<Rightarrow> string \<Rightarrow> string" where
  "string_arg args k dflt = (case map_of args k of Some (JStr s) \<Rightarrow> s | _ \<Rightarrow> dflt)"

definition create_file_tool :: "Env \<Rightarrow> (Session, report) BaseTool" where
  "create_file_tool env =
     \<lparr>tool_name = ''create_file'', tool_parameters = create_file_parameters,
      tool_execute = (\<lambda>args w.
        (case map_of args ''file_path'' of
           Some (JStr p) \<Rightarrow>
             create_file env p (string_arg args ''content'' []) (string_arg args ''file_type'' ''text'') w
         | Some JNull \<Rightarrow>
             (Inl (ErrorObj (''Failed to create file: Cannot read properties of null ''
                             @ ''(reading replace)'')), w)
         | Some v \<Rightarrow> (Inl (ErrorObj ''Failed to create file: path.replace is not a function''), w)
         | None \<Rightarrow>
             (Inl (ErrorObj (''Failed to create file: Cannot read properties of undefined ''
                             @ ''(reading replace)'')), w)))\<rparr>"

definition demo_registry :: "(string \<times> (Session, report) BaseTool) list" where
  "demo_registry = [(''create_file'', create_file_tool (no_cache 2))]"

definition call :: "string \<Rightarrow> (string \<times> jsval) list \<Rightarrow> ToolCall" where
  "call n args = \<lparr>call_id = ''call_1'', call_name = n, call_arguments = args\<rparr>"

section \<open>Scenario data\<close>

text \<open>A one-line JavaScript file and the symbol the index extracts from it.\<close>

definition foo_js :: string where
  "foo_js = ''class Foo {}''"

definition foo_symbol :: SymbolInfo where
  "foo_symbol =
     \<lparr>sym_name = ''Foo'', sym_type = ''class'', sym_filePath = ''a.js'',
      sym_lineNumber = 1, sym_column = 6, sym_context = ''class Foo {}''\<rparr>"

definition demo_options :: SearchOptions where
  "demo_options =
     \<lparr>includeFilenames = True, includeContent = True, caseSensitive = False, maxResults = 10\<rparr>"

text \<open>A store holding \<open>a.js\<close>, and the store after \<open>a.js\<close> has been deleted again.\<close>

definition fs_with_foo :: VirtualFileSystem where
  "fs_with_foo = snd (addFile (no_cache 0) ''a.js'' (Some foo_js) ''file'' None None empty_fs)"

definition fs_foo_deleted :: VirtualFileSystem where
  "fs_foo_deleted = snd (deleteFile ''a.js'' fs_with_foo)"

text \<open>
  A session of five calls, and the environments of three \<open>undo()\<close> calls after it.
\<close>

definition demo_ops :: "tool_op list" where
  "demo_ops = [OpCreate (no_cache 1) ''a.txt'' ''one'' ''text'',
               OpWrite (no_cache 2) ''a.txt'' ''two'',
               OpCreate (no_cache 3) ''b.txt'' ''x'' ''text'',
               OpEdit (no_cache 4) ''a.txt'' ''tw'' ''fo'' False,
               OpDelete (no_cache 5) ''b.txt'' True]"

definition demo_session :: Session where
  "demo_session = the (run_ops demo_ops (start_session empty_fs True))"

definition demo_envs :: "Env list" where
  "demo_envs = [no_cache 6, no_cache 7, no_cache 8]"

text \<open>A store with the file \<open>auth.js\<close> and a file \<open>notes.txt\<close> whose only line is \<open>bug\<close>.\<close>

definition auth_store :: VirtualFileSystem where
  "auth_store =
     snd (addFile (no_cache 0) ''notes.txt'' (Some ''bug'') ''file'' None None
       (snd (addFile (no_cache 0) ''auth.js'' (Some ''login code'') ''file'' None None empty_fs)))"

section \<open>Properties\<close>

subsection \<open>Validation collects every violation\<close>


lemma length_type_errors:
  "length (type_errors p v) = (if declared_type_ok (param_type p) v then 0 else 1)"
  by (cases v) (simp_all add: type_errors_def declared_type_ok_def)

lemma length_enum_errors:
  "length (enum_errors p v) =
     (case param_enum p of None \<Rightarrow> 0
      | Some vs \<Rightarrow> (case v of JStr s \<Rightarrow> (if s \<in> set vs then 0 else 1) | _ \<Rightarrow> 1))"
  by (cases v) (simp_all add: enum_errors_def split: option.splits)

lemma length_validateParam:
  "length (validateParam args p) =
     (if missing_required args p then 1 else 0)
     + (if type_mismatch args p then 1 else 0)
     + (if enum_violation args p then 1 else 0)"
  by (cases "map_of args (param_name p)")
     (auto simp: validateParam_def has_prop_def missing_required_def type_mismatch_def
        enum_violation_def length_type_errors length_enum_errors
        split: option.splits jsval.splits)

lemma length_filter_count:
  "length (filter P xs) = (\<Sum>x\<leftarrow>xs. if P x then 1 else 0)"
  by (induction xs) simp_all

lemma length_validateArgs:
  "length (validateArgs params args) =
     length (filter (missing_required args) params)
     + length (filter (type_mismatch args) params)
     + length (filter (enum_violation args) params)"
  by (induction params)
     (simp_all add: validateArgs_def length_validateParam)


text \<open>
  Claim C8. \<open>validateArgs\<close> does not stop at the first violation: it returns exactly one
  error string for every required parameter that is missing, one for every supplied
  parameter whose value is not of the declared type, and one for every supplied parameter
  whose value is outside the declared enumeration. So a call with two required parameters
  missing and one supplied parameter of the wrong type (and no enumeration violated)
  yields exactly three error strings.
\<close>

theorem validateArgs_collects_all:
  "length (validateArgs params args) =
     length (filter (missing_required args) params)
     + length (filter (type_mismatch args) params)
     + length (filter (enum_violation args) params)
   \<and> (length (filter (missing_required args) params) = 2
        \<and> length (filter (type_mismatch args) params) = 1
        \<and> length (filter (enum_violation args) params) = 0
        \<longrightarrow> length (validateArgs params args) = 3)"
  by (simp add: length_validateArgs)

text \<open>
  The instance: \<open>edit_file\<close> called with only \<open>new_content\<close>, and that a number.
\<close>

theorem validateArgs_collects_all_witness:
  "length (filter (missing_required [(''new_content'', JNum 5)]) edit_file_parameters) = 2
   \<and> length (filter (type_mismatch [(''new_content'', JNum 5)]) edit_file_parameters) = 1
   \<and> length (filter (enum_violation [(''new_content'', JNum 5)]) edit_file_parameters) = 0
   \<and> length (validateArgs edit_file_parameters [(''new_content'', JNum 5)]) = 3"
  using validateArgs_collects_all [of edit_file_parameters "[(''new_content'', JNum 5)]"]
  by (simp add: edit_file_parameters_def missing_required_def type_mismatch_def
        enum_violation_def declared_type_ok_def)

lemma validateArgs_edit_file_example:
  "validateArgs edit_file_parameters [(''new_content'', JNum 5)] =
      [''Required parameter '' @ [CHR 0x27] @ ''file_path'' @ [CHR 0x27] @ '' is missing'',
       ''Required parameter '' @ [CHR 0x27] @ ''old_content'' @ [CHR 0x27] @ '' is missing'',
       ''Parameter '' @ [CHR 0x27] @ ''new_content'' @ [CHR 0x27] @ '' must be a string'']"
  by (simp add: edit_file_parameters_def validateArgs_def validateParam_def has_prop_def
        type_errors_def enum_errors_def)

subsection \<open>Trimming the context bundle to the character budget\<close>

lemma content_len_nonneg: "0 \<le> content_len f"
  by (simp add: content_len_def split: option.splits)

lemma total_len_append: "total_len (xs @ ys) = total_len xs + total_len ys"
  by (simp add: total_len_def)

lemma total_len_take_Suc:
  "k < length fs \<Longrightarrow> total_len (take (Suc k) fs) = total_len (take k fs) + content_len (fs ! k)"
  by (simp add: take_Suc_conv_app_nth total_len_def)

lemma content_len_partialFile:
  "500 < r \<Longrightarrow> r < int (length c) \<Longrightarrow> content_len (partialFile r file c) = r - 100 + 17"
  by (simp add: content_len_def partialFile_def truncated_marker_def min_def)

text \<open>The loop, started with any running total and any list of entries kept so far.\<close>

lemma trimLoop_char:
  assumes "\<forall>f \<in> set fs. rf_content f \<noteq> None"
  shows "\<exists>k \<le> length fs.
           tot + total_len (take k fs) \<le> max maxC tot
         \<and> (k < length fs \<longrightarrow> maxC < tot + total_len (take k fs) + content_len (fs ! k))
         \<and> trimLoop maxC tot kept fs =
             Inr (kept @ take k fs @
               (if k < length fs \<and> maxC - (tot + total_len (take k fs)) > 500
                then [partialFile (maxC - (tot + total_len (take k fs))) (fs ! k)
                        (case rf_content (fs ! k) of None \<Rightarrow> [] | Some c \<Rightarrow> c)]
                else []))"
  using assms
proof (induction fs arbitrary: tot kept)
  case Nil
  then show ?case by (simp add: total_len_def)
next
  case (Cons f fs)
  from Cons.prems obtain c where c: "rf_content f = Some c" by auto
  show ?case
  proof (cases "tot + int (length c) \<le> maxC")
    case True
    from Cons.prems have "\<forall>f \<in> set fs. rf_content f \<noteq> None" by simp
    from Cons.IH [OF this, of "tot + int (length c)" "kept @ [f]"]
    obtain k where k: "k \<le> length fs"
      "tot + int (length c) + total_len (take k fs) \<le> max maxC (tot + int (length c))"
      "k < length fs \<longrightarrow> maxC < tot + int (length c) + total_len (take k fs) + content_len (fs ! k)"
      "trimLoop maxC (tot + int (length c)) (kept @ [f]) fs =
         Inr ((kept @ [f]) @ take k fs @
           (if k < length fs \<and> maxC - (tot + int (length c) + total_len (take k fs)) > 500
            then [partialFile (maxC - (tot + int (length c) + total_len (take k fs))) (fs ! k)
                    (case rf_content (fs ! k) of None \<Rightarrow> [] | Some c \<Rightarrow> c)]
            else []))"
      by blast
    have tl: "total_len (take (Suc k) (f # fs)) = int (length c) + total_len (take k fs)"
      by (simp add: total_len_def content_len_def c)
    show ?thesis
      apply (rule exI [of _ "Suc k"])
      using k True c tl by (simp add: add.assoc)
  next
    case False
    show ?thesis
      apply (rule exI [of _ 0])
      using False c by (simp add: total_len_def content_len_def Let_def)
  qed
qed

text \<open>
  Claim C5, as amended. Let every candidate have a content and the budget be non-negative.
  Then \<open>trimContextToLimit\<close> keeps, unchanged and in order, the longest run of leading
  candidates whose contents together fit the budget. If a next candidate exists (it does
  not fit) and MORE than 500 characters of budget remain, one more entry follows and
  trimming stops: the first \<open>remaining - 100\<close> characters of that candidate followed by
  the truncation marker, with the score multiplied by 0.7 and the reason suffixed
  \<open>_partial\<close>; with 500 characters or fewer remaining nothing follows. The contents
  returned never exceed the budget in total.
\<close>

theorem trimContextToLimit_budget_rule:
  assumes "\<forall>f \<in> set cands. rf_content f \<noteq> None" and "0 \<le> maxContextChars"
  shows "(\<exists>k \<le> length cands.
           total_len (take k cands) \<le> maxContextChars
         \<and> (k < length cands \<longrightarrow> maxContextChars < total_len (take (Suc k) cands))
         \<and> trimContextToLimit maxContextChars cands =
             Inr (take k cands @ partial_tail maxContextChars cands k)
         \<and> total_len (take k cands @ partial_tail maxContextChars cands k) \<le> maxContextChars)
       \<and> rf_content (partialFile r file c) = Some (take (nat (r - 100)) c @ truncated_marker)
       \<and> relevanceScore (partialFile r file c) = relevanceScore file * (7 / 10)
       \<and> reason (partialFile r file c) = reason file @ ''_partial''
       \<and> rf_path (partialFile r file c) = rf_path file"
proof -
  from trimLoop_char [OF assms(1), of 0 maxContextChars "[]"]
  obtain k where k0: "k \<le> length cands"
    "0 + total_len (take k cands) \<le> max maxContextChars 0"
    "k < length cands \<longrightarrow> maxContextChars < 0 + total_len (take k cands) + content_len (cands ! k)"
    "trimLoop maxContextChars 0 [] cands =
       Inr ([] @ take k cands @
         (if k < length cands \<and> maxContextChars - (0 + total_len (take k cands)) > 500
          then [partialFile (maxContextChars - (0 + total_len (take k cands))) (cands ! k)
                  (case rf_content (cands ! k) of None \<Rightarrow> [] | Some c \<Rightarrow> c)]
          else []))"
    by blast
  have k: "k \<le> length cands"
    "total_len (take k cands) \<le> max maxContextChars 0"
    "k < length cands \<longrightarrow> maxContextChars < total_len (take k cands) + content_len (cands ! k)"
    "trimLoop maxContextChars 0 [] cands = Inr (take k cands @ partial_tail maxContextChars cands k)"
    using k0 by (simp_all add: partial_tail_def)
  have le: "total_len (take k cands) \<le> maxContextChars" using k(2) assms(2) by simp
  have bound: "total_len (take k cands @ partial_tail maxContextChars cands k) \<le> maxContextChars"
  proof (cases "k < length cands \<and> maxContextChars - total_len (take k cands) > 500")
    case True
    then have kl: "k < length cands" and big: "maxContextChars - total_len (take k cands) > 500"
      by simp_all
    from assms(1) kl obtain c where c: "rf_content (cands ! k) = Some c"
      by (metis nth_mem option.exhaust)
    have "maxContextChars - total_len (take k cands) < int (length c)"
      using k(3) kl c by (simp add: content_len_def)
    then have "content_len (partialFile (maxContextChars - total_len (take k cands)) (cands ! k) c)
        = maxContextChars - total_len (take k cands) - 100 + 17"
      using content_len_partialFile [OF big, of c "cands ! k"] by simp
    then show ?thesis
      using True c by (simp add: partial_tail_def total_len_append) (simp add: total_len_def)
  next
    case False
    then show ?thesis using le by (auto simp: partial_tail_def)
  qed
  have main: "\<exists>k \<le> length cands.
           total_len (take k cands) \<le> maxContextChars
         \<and> (k < length cands \<longrightarrow> maxContextChars < total_len (take (Suc k) cands))
         \<and> trimContextToLimit maxContextChars cands =
             Inr (take k cands @ partial_tail maxContextChars cands k)
         \<and> total_len (take k cands @ partial_tail maxContextChars cands k) \<le> maxContextChars"
    apply (rule exI [of _ k])
    using k le bound by (simp add: trimContextToLimit_def total_len_take_Suc)
  have part: "rf_content (partialFile r file c) = Some (take (nat (r - 100)) c @ truncated_marker)
         \<and> relevanceScore (partialFile r file c) = relevanceScore file * (7 / 10)
         \<and> reason (partialFile r file c) = reason file @ ''_partial''
         \<and> rf_path (partialFile r file c) = rf_path file"
    by (simp add: partialFile_def)
  from main part show ?thesis by blast
qed

text \<open>
  The rule at a budget of 1000 with candidates of 300 and 900 characters: 700 characters
  remain when the second does not fit, so its first 600 characters are kept, marked.
\<close>

theorem trimContextToLimit_budget_rule_witness:
  "(\<exists>k \<le> 2.
         trimContextToLimit 1000 [candidate ''a.js'' 300, candidate ''b.js'' 900] =
           Inr (take k [candidate ''a.js'' 300, candidate ''b.js'' 900]
                @ partial_tail 1000 [candidate ''a.js'' 300, candidate ''b.js'' 900] k))
   \<and> trimContextToLimit 1000 [candidate ''a.js'' 300, candidate ''b.js'' 900] =
       Inr [candidate ''a.js'' 300,
            \<lparr>rf_path = ''b.js'',
             rf_content = Some (replicate 600 (CHR ''x'') @ truncated_marker),
             relevanceScore = 7 / 10, reason = ''keyword_match_partial'',
             rf_matchedLines = []\<rparr>]"
proof -
  have h1: "\<forall>f \<in> set [candidate ''a.js'' 300, candidate ''b.js'' 900]. rf_content f \<noteq> None"
    by (simp add: candidate_def)
  have h2: "(0::int) \<le> 1000" by simp
  from trimContextToLimit_budget_rule [OF h1 h2]
  obtain k where "k \<le> length [candidate ''a.js'' 300, candidate ''b.js'' 900]"
    and "trimContextToLimit 1000 [candidate ''a.js'' 300, candidate ''b.js'' 900] =
           Inr (take k [candidate ''a.js'' 300, candidate ''b.js'' 900]
                @ partial_tail 1000 [candidate ''a.js'' 300, candidate ''b.js'' 900] k)"
    by blast
  then have "\<exists>k \<le> 2.
         trimContextToLimit 1000 [candidate ''a.js'' 300, candidate ''b.js'' 900] =
           Inr (take k [candidate ''a.js'' 300, candidate ''b.js'' 900]
                @ partial_tail 1000 [candidate ''a.js'' 300, candidate ''b.js'' 900] k)"
    by (intro exI [of _ k]) simp
  moreover have "trimContextToLimit 1000 [candidate ''a.js'' 300, candidate ''b.js'' 900] =
       Inr [candidate ''a.js'' 300,
            \<lparr>rf_path = ''b.js'',
             rf_content = Some (replicate 600 (CHR ''x'') @ truncated_marker),
             relevanceScore = 7 / 10, reason = ''keyword_match_partial'',
             rf_matchedLines = []\<rparr>]"
    by (simp add: trimContextToLimit_def candidate_def partialFile_def)
  ultimately show ?thesis by blast
qed

text \<open>
  The scenario of the specification, as the code runs it: at a budget of 1000 with two
  candidates of 700 characters only 300 characters remain for the second, so it is
  dropped whole. And with exactly 500 characters remaining nothing partial is kept.
\<close>

theorem trimContextToLimit_two_700_counterexample:
  "trimContextToLimit 1000 [candidate ''a.js'' 700, candidate ''b.js'' 700]
     = Inr [candidate ''a.js'' 700]
   \<and> trimContextToLimit 1000 [candidate ''a.js'' 500, candidate ''b.js'' 700]
     = Inr [candidate ''a.js'' 500]"
  by (simp add: trimContextToLimit_def candidate_def)

subsection \<open>Paths and the entries of the store\<close>

lemma collapse_slashes_Nil_iff: "collapse_slashes s = [] \<longleftrightarrow> s = []"
  by (induction s rule: collapse_slashes.induct) simp_all

lemma hd_collapse_slashes: "s \<noteq> [] \<Longrightarrow> hd (collapse_slashes s) = hd s"
  by (induction s rule: collapse_slashes.induct) simp_all

lemma set_collapse_slashes: "set (collapse_slashes s) \<subseteq> set s"
  by (induction s rule: collapse_slashes.induct) auto

lemma collapse_slashes_idem: "collapse_slashes (collapse_slashes s) = collapse_slashes s"
proof (induction s rule: collapse_slashes.induct)
  case (1 c d ds)
  obtain e es where e: "collapse_slashes (d # ds) = e # es"
    using collapse_slashes_Nil_iff [of "d # ds"] by (cases "collapse_slashes (d # ds)") auto
  have "e = d" using hd_collapse_slashes [of "d # ds"] e by simp
  with 1 e show ?case by auto
qed simp_all

text \<open>Normalising a normalised path changes nothing.\<close>

lemma normalizePath_idem: "normalizePath (normalizePath p) = normalizePath p"
proof -
  let ?f = "\<lambda>c. if c = CHR 0x5C then CHR ''/'' else c"
  have "CHR 0x5C \<notin> set (map ?f p)" by auto
  then have "CHR 0x5C \<notin> set (collapse_slashes (map ?f p))"
    using set_collapse_slashes by blast
  then have "map ?f (collapse_slashes (map ?f p)) = collapse_slashes (map ?f p)"
    by (intro map_idI) auto
  then show ?thesis by (simp add: normalizePath_def collapse_slashes_idem)
qed

lemma map_of_update: "map_of (AList.update k v al) q = (if q = k then Some v else map_of al q)"
  by (simp add: update_conv')

lemma map_of_delete: "map_of (AList.delete k al) q = (if q = k then None else map_of al q)"
  by (simp add: delete_conv')

lemma files_addFile:
  "map_of (files (snd (addFile env p content kind sz lm fs))) q =
     (if q = normalizePath p then Some (fst (addFile env p content kind sz lm fs))
      else map_of (files fs) q)"
  by (simp add: addFile_def Let_def map_of_update split: option.splits)

lemma files_updateFile:
  "map_of (files (snd (updateFile env p c fs))) q =
     (if q = normalizePath p then Some (fst (updateFile env p c fs))
      else map_of (files fs) q)"
  by (simp add: updateFile_def Let_def map_of_update files_addFile normalizePath_idem
      split: option.splits)

lemma files_deleteFile:
  "map_of (files (snd (deleteFile p fs))) q =
     (if q = normalizePath p then None else map_of (files fs) q)"
  by (auto simp: deleteFile_def Let_def map_of_delete split: option.splits)

text \<open>
  Claim C10. For every path \<open>p\<close>, \<open>updateFile\<close>, \<open>addFile\<close> and \<open>deleteFile\<close> leave the
  entry of every path other than the normalisation of \<open>p\<close> as it was; \<open>deleteFile\<close>
  leaves no entry for the normalisation of \<open>p\<close>; and when there was none it returns
  \<open>false\<close> and the whole store, index included, is unchanged.
\<close>

theorem vfs_mutation_frame:
  "(q \<noteq> normalizePath p \<longrightarrow>
        map_of (files (snd (updateFile env p c fs))) q = map_of (files fs) q
      \<and> map_of (files (snd (addFile env p content kind sz lm fs))) q = map_of (files fs) q
      \<and> map_of (files (snd (deleteFile p fs))) q = map_of (files fs) q)
   \<and> map_of (files (snd (deleteFile p fs))) (normalizePath p) = None
   \<and> (map_of (files fs) (normalizePath p) = None \<longrightarrow> deleteFile p fs = (False, fs))"
  by (simp add: files_addFile files_updateFile files_deleteFile)
     (simp add: deleteFile_def)

text \<open>
  The instance: in the store holding \<open>a.js\<close>, writing, adding or deleting \<open>src//b.js\<close>
  leaves the entry of \<open>a.js\<close> alone, and deleting the absent \<open>src//b.js\<close> returns \<open>false\<close>.
\<close>

theorem vfs_mutation_frame_witness:
  "''a.js'' \<noteq> normalizePath ''src//b.js''
   \<and> map_of (files (snd (updateFile (no_cache 1) ''src//b.js'' ''x'' fs_with_foo))) ''a.js''
       = map_of (files fs_with_foo) ''a.js''
   \<and> map_of (files (snd (addFile (no_cache 1) ''src//b.js'' (Some ''x'') ''file'' None None
                           fs_with_foo))) ''a.js''
       = map_of (files fs_with_foo) ''a.js''
   \<and> map_of (files (snd (deleteFile ''src//b.js'' fs_with_foo))) ''a.js''
       = map_of (files fs_with_foo) ''a.js''
   \<and> map_of (files fs_with_foo) (normalizePath ''src//b.js'') = None
   \<and> deleteFile ''src//b.js'' fs_with_foo = (False, fs_with_foo)"
proof -
  have ne: "''a.js'' \<noteq> normalizePath ''src//b.js''"
    by (simp add: normalizePath_def)
  have absent: "map_of (files fs_with_foo) (normalizePath ''src//b.js'') = None"
    by (simp add: fs_with_foo_def addFile_def Let_def empty_fs_def normalizePath_def)
  from vfs_mutation_frame [of "''a.js''" "''src//b.js''" "no_cache 1" "''x''" fs_with_foo
         "Some ''x''" "''file''" None None] ne absent
  show ?thesis by blast
qed

subsection \<open>The index after a deletion, and after indexing twice\<close>

text \<open>
  Claim C2, at the input that refutes it. \<open>a.js\<close> is added to an empty store and then
  deleted. The store has no entry left, but \<open>deleteFile\<close> has not touched the index:
  \<open>searchSymbols\<close> still returns the symbol of \<open>a.js\<close> and \<open>searchContent\<close> still returns
  \<open>a.js\<close> with its line.
\<close>

theorem deleteFile_leaves_index_entries:
  "files fs_foo_deleted = []
   \<and> index fs_foo_deleted = index fs_with_foo
   \<and> searchSymbols (index fs_foo_deleted) ''Foo'' 50 = [foo_symbol]
   \<and> map_option (map (\<lambda>r. (fsr_filePath r, map ml_content (fsr_matchedLines r))))
        (searchContent (index fs_foo_deleted) ''class'' demo_options)
       = Some [(''a.js'', [''class Foo {}''])]"
  by code_simp

text \<open>\<open>deleteFile\<close> never changes the index.\<close>

lemma index_deleteFile: "index (snd (deleteFile p fs)) = index fs"
  by (simp add: deleteFile_def Let_def split: option.splits)

text \<open>
  Claim C4, at the input that refutes it. Indexing \<open>a.js\<close> once records its symbol
  once; indexing the same content again appends the symbol a second time, while the line
  index, the token index and the hash are the same as after one indexing.
\<close>

theorem indexFile_twice_duplicates_symbols:
  "symbolIndex (indexFile ''a.js'' foo_js empty_index) = [(''Foo'', [foo_symbol])]
   \<and> symbolIndex (indexFile ''a.js'' foo_js (indexFile ''a.js'' foo_js empty_index))
       = [(''Foo'', [foo_symbol, foo_symbol])]
   \<and> getSymbols (indexFile ''a.js'' foo_js (indexFile ''a.js'' foo_js empty_index)) ''a.js''
       = [foo_symbol, foo_symbol]
   \<and> tokenIndex (indexFile ''a.js'' foo_js (indexFile ''a.js'' foo_js empty_index))
       = tokenIndex (indexFile ''a.js'' foo_js empty_index)
   \<and> lineIndex (indexFile ''a.js'' foo_js (indexFile ''a.js'' foo_js empty_index))
       = lineIndex (indexFile ''a.js'' foo_js empty_index)"
  by code_simp

subsection \<open>Editing a file\<close>

lemma startsWith_iff: "startsWith s p \<longleftrightarrow> length p \<le> length s \<and> take (length p) s = p"
  by (induction s p rule: startsWith.induct) auto

lemma occurs_at_0: "occurs_at s 0 p \<longleftrightarrow> startsWith s p"
  by (auto simp: occurs_at_def startsWith_iff)

lemma occurs_at_Suc: "occurs_at (c # cs) (Suc i) p \<longleftrightarrow> occurs_at cs i p"
  by (simp add: occurs_at_def)

lemma indexOf_Some_iff: "indexOf s p \<noteq> None \<longleftrightarrow> (\<exists>i. occurs_at s i p)"
proof (induction s)
  case Nil
  show ?case by (auto simp: occurs_at_def)
next
  case (Cons c cs)
  show ?case
  proof (cases "startsWith (c # cs) p")
    case True
    then show ?thesis using occurs_at_0 [of "c # cs" p] by auto
  next
    case False
    have "(\<exists>i. occurs_at (c # cs) i p) \<longleftrightarrow> (\<exists>i. occurs_at cs i p)"
    proof
      assume "\<exists>i. occurs_at (c # cs) i p"
      then obtain i where i: "occurs_at (c # cs) i p" by blast
      with False occurs_at_0 [of "c # cs" p] have "i \<noteq> 0" by (cases i) auto
      then obtain k where "i = Suc k" by (cases i) auto
      with i show "\<exists>i. occurs_at cs i p" using occurs_at_Suc by blast
    next
      assume "\<exists>i. occurs_at cs i p"
      then show "\<exists>i. occurs_at (c # cs) i p" using occurs_at_Suc by blast
    qed
    with False Cons show ?thesis by simp
  qed
qed

lemma js_includes_iff: "js_includes s p \<longleftrightarrow> (\<exists>i. occurs_at s i p)"
  unfolding js_includes_def by (rule indexOf_Some_iff)

lemma count_matches_empty: "count_matches [] s = Suc (length s)"
  by (induction s) simp_all

lemma count_matches_ge1: "occurs_at s i p \<Longrightarrow> 1 \<le> count_matches p s"
proof (induction s arbitrary: i)
  case Nil
  then show ?case by (simp add: occurs_at_def)
next
  case (Cons c cs)
  show ?case
  proof (cases "p = []")
    case True then show ?thesis by simp
  next
    case False
    show ?thesis
    proof (cases "startsWith (c # cs) p")
      case True with False show ?thesis by simp
    next
      case nm: False
      with Cons.prems occurs_at_0 [of "c # cs" p] obtain k where "i = Suc k" by (cases i) auto
      with Cons.prems have "occurs_at cs k p" by (simp add: occurs_at_Suc)
      from Cons.IH [OF this] False nm show ?thesis by simp
    qed
  qed
qed

lemma occurs_at_drop: "occurs_at s j p \<Longrightarrow> n \<le> j \<Longrightarrow> occurs_at (drop n s) (j - n) p"
  by (auto simp: occurs_at_def)

lemma count_matches_ge2:
  "occurs_at s i p \<Longrightarrow> occurs_at s j p \<Longrightarrow> i < j \<Longrightarrow> i + length p \<le> j
     \<Longrightarrow> 2 \<le> count_matches p s"
proof (induction s arbitrary: i j)
  case Nil
  then show ?case by (simp add: occurs_at_def)
next
  case (Cons c cs)
  show ?case
  proof (cases "p = []")
    case True
    from Cons.prems have "j \<le> length (c # cs)" by (simp add: occurs_at_def)
    with Cons.prems(3) have "1 \<le> length (c # cs)" by simp
    with True show ?thesis by (simp add: count_matches_empty)
  next
    case False
    show ?thesis
    proof (cases "startsWith (c # cs) p")
      case True
      from False obtain m where m: "length p = Suc m" by (cases p) auto
      have "length p \<le> j" using Cons.prems(4) by simp
      from occurs_at_drop [OF Cons.prems(2) this]
      have "occurs_at (drop m cs) (j - length p) p" using m by simp
      from count_matches_ge1 [OF this] True False m show ?thesis by simp
    next
      case nm: False
      with Cons.prems(1) occurs_at_0 [of "c # cs" p] obtain k where k: "i = Suc k"
        by (cases i) auto
      with Cons.prems(3) obtain l where l: "j = Suc l" by (cases j) auto
      from Cons.prems k l have "occurs_at cs k p" "occurs_at cs l p" "k < l" "k + length p \<le> l"
        by (simp_all add: occurs_at_Suc)
      from Cons.IH [OF this] False nm show ?thesis by simp
    qed
  qed
qed

lemma getSubstitution_plain:
  "CHR ''$'' \<notin> set tmpl \<Longrightarrow> getSubstitution m b a tmpl = tmpl"
  by (induction m b a tmpl rule: getSubstitution.induct) auto

lemma replace_from_plain:
  "CHR ''$'' \<notin> set n \<Longrightarrow> replace_from p n whole pos s = replace_plain p n s"
proof (induction p n s arbitrary: pos rule: replace_plain.induct)
  case (1 p n)
  then show ?case by (simp add: getSubstitution_plain)
next
  case (2 p n c cs)
  then show ?case by (simp add: getSubstitution_plain)
qed

lemma replace_all_matches_plain:
  "CHR ''$'' \<notin> set n \<Longrightarrow> replace_all_matches p n s = replace_plain p n s"
  by (simp add: replace_all_matches_def replace_from_plain)

lemma content_at_updateFile:
  "content_at (snd (updateFile env p c fs)) q =
     (if q = normalizePath p then Some (Some c) else content_at fs q)"
  by (simp add: content_at_def files_updateFile)
     (simp add: updateFile_def addFile_def Let_def split: option.splits)

text \<open>
  What \<open>edit_file\<close> does on an entry that is no directory, with content \<open>c\<close>, as the
  lookup of \<open>file_path\<close> returns it. (1) If \<open>old_content\<close> occurs nowhere in \<open>c\<close>, the call
  fails. (2) If \<open>replace_all\<close> is not set and \<open>old_content\<close> has two occurrences that do not
  overlap, the call fails. In both cases no change is recorded. (3) With \<open>replace_all\<close>
  set, \<open>old_content\<close> occurring and \<open>new_content\<close> free of dollar signs, the call succeeds
  and the stored content is \<open>c\<close> with every occurrence found from left to right without
  overlap replaced by \<open>new_content\<close>.
\<close>

lemma edit_file_guard:
  assumes "getFile env file_path (fileSystem w) = (Some f, fs1)"
    and "fe_type f \<noteq> ''directory''" and "fe_content f = Some c"
  shows "(\<not> (\<exists>i. occurs_at c i old_content) \<longrightarrow>
            (\<exists>msg. edit_file env file_path old_content new_content replace_all w
                     = (Inl (ErrorObj msg), w\<lparr>fileSystem := fs1\<rparr>)))
       \<and> (\<not> replace_all
            \<and> (\<exists>i j. i < j \<and> i + length old_content \<le> j
                      \<and> occurs_at c i old_content \<and> occurs_at c j old_content) \<longrightarrow>
            (\<exists>msg. edit_file env file_path old_content new_content replace_all w
                     = (Inl (ErrorObj msg), w\<lparr>fileSystem := fs1\<rparr>)))
       \<and> (replace_all \<and> (\<exists>i. occurs_at c i old_content) \<and> CHR ''$'' \<notin> set new_content \<longrightarrow>
            (\<exists>rep. fst (edit_file env file_path old_content new_content replace_all w) = Inr rep)
            \<and> content_at (fileSystem (snd (edit_file env file_path old_content new_content
                                              replace_all w)))
                 (normalizePath file_path)
               = Some (Some (replace_plain old_content new_content c)))
       \<and> (env_cached env (normalizePath file_path) = None \<longrightarrow> fs1 = fileSystem w)"
proof -
  have p1: "\<exists>msg. edit_file env file_path old_content new_content replace_all w
                     = (Inl (ErrorObj msg), w\<lparr>fileSystem := fs1\<rparr>)"
    if "\<not> (\<exists>i. occurs_at c i old_content)"
  proof -
    from that have "\<not> js_includes c old_content" by (simp add: js_includes_iff)
    with assms show ?thesis by (simp add: edit_file_def)
  qed
  have p2: "\<exists>msg. edit_file env file_path old_content new_content replace_all w
                     = (Inl (ErrorObj msg), w\<lparr>fileSystem := fs1\<rparr>)"
    if a: "\<not> replace_all
            \<and> (\<exists>i j. i < j \<and> i + length old_content \<le> j
                      \<and> occurs_at c i old_content \<and> occurs_at c j old_content)"
  proof -
    from a obtain i j where ij: "i < j" "i + length old_content \<le> j"
      "occurs_at c i old_content" "occurs_at c j old_content" by blast
    have inc: "js_includes c old_content" using ij(3) js_includes_iff by blast
    have "2 \<le> count_matches old_content c"
      using count_matches_ge2 [OF ij(3) ij(4) ij(1) ij(2)] .
    with a inc assms show ?thesis by (simp add: edit_file_def Let_def)
  qed
  have p3: "(\<exists>rep. fst (edit_file env file_path old_content new_content replace_all w) = Inr rep)
            \<and> content_at (fileSystem (snd (edit_file env file_path old_content new_content
                                              replace_all w)))
                 (normalizePath file_path)
               = Some (Some (replace_plain old_content new_content c))"
    if a: "replace_all \<and> (\<exists>i. occurs_at c i old_content) \<and> CHR ''$'' \<notin> set new_content"
  proof -
    from a have inc: "js_includes c old_content" by (simp add: js_includes_iff)
    from a inc assms show ?thesis
      by (simp add: edit_file_def Let_def content_at_updateFile replace_all_matches_plain)
  qed
  have p4: "fs1 = fileSystem w" if "env_cached env (normalizePath file_path) = None"
    using that assms(1) by (auto simp: getFile_def Let_def split: option.splits)
  from p1 p2 p3 p4 show ?thesis by blast
qed


lemma getFile_session_foo:
  "getFile (no_cache 2) ''a.txt'' (fileSystem (session_with ''a.txt'' ''foo bar foo''))
     = (Some \<lparr>fe_path = ''a.txt'', fe_content = Some ''foo bar foo'', fe_type = ''file'',
              fe_size = 11, fe_lastModified = 1\<rparr>,
        fileSystem (session_with ''a.txt'' ''foo bar foo''))"
  by code_simp

text \<open>
  On \<open>foo bar foo\<close>, replacing \<open>foo\<close> by \<open>baz\<close> with \<open>replace_all\<close> gives \<open>baz bar baz\<close>;
  without \<open>replace_all\<close> the call fails and the session is unchanged; and a text that does
  not occur makes the call fail too.
\<close>

lemma edit_file_foo_bar_foo:
  "(\<exists>rep. fst (edit_file (no_cache 2) ''a.txt'' ''foo'' ''baz'' True
                 (session_with ''a.txt'' ''foo bar foo'')) = Inr rep)
   \<and> content_at (fileSystem (snd (edit_file (no_cache 2) ''a.txt'' ''foo'' ''baz'' True
                                    (session_with ''a.txt'' ''foo bar foo'')))) ''a.txt''
       = Some (Some ''baz bar baz'')
   \<and> (\<exists>msg. edit_file (no_cache 2) ''a.txt'' ''foo'' ''baz'' False
                (session_with ''a.txt'' ''foo bar foo'')
              = (Inl (ErrorObj msg), session_with ''a.txt'' ''foo bar foo''))
   \<and> (\<exists>msg. edit_file (no_cache 2) ''a.txt'' ''qux'' ''baz'' True
                (session_with ''a.txt'' ''foo bar foo'')
              = (Inl (ErrorObj msg), session_with ''a.txt'' ''foo bar foo''))"
proof -
  let ?w = "session_with ''a.txt'' ''foo bar foo''"
  let ?f = "\<lparr>fe_path = ''a.txt'', fe_content = Some ''foo bar foo'', fe_type = ''file'',
              fe_size = 11, fe_lastModified = 1\<rparr>"
  have t: "fe_type ?f \<noteq> ''directory''" by simp
  have c: "fe_content ?f = Some ''foo bar foo''" by simp
  have o0: "occurs_at ''foo bar foo'' 0 ''foo''" by (simp add: occurs_at_def)
  have o8: "occurs_at ''foo bar foo'' 8 ''foo''" by (simp add: occurs_at_def)
  have noq: "\<not> (\<exists>i. occurs_at ''foo bar foo'' i ''qux'')"
    using js_includes_iff [of "''foo bar foo''" "''qux''"] by (simp add: js_includes_def)
  have rp: "replace_plain ''foo'' ''baz'' ''foo bar foo'' = ''baz bar baz''" by simp
  have np: "normalizePath ''a.txt'' = ''a.txt''" by (simp add: normalizePath_def)
  have same: "?w\<lparr>fileSystem := fileSystem ?w\<rparr> = ?w" by simp
  have ex: "\<exists>i. occurs_at ''foo bar foo'' i ''foo''" using o0 by blast
  have two: "\<exists>i j. i < j \<and> i + length ''foo'' \<le> j
                \<and> occurs_at ''foo bar foo'' i ''foo'' \<and> occurs_at ''foo bar foo'' j ''foo''"
    using o0 o8 by (intro exI [of _ 0] exI [of _ 8]) simp
  from edit_file_guard [OF getFile_session_foo t c, of "''foo''" "''baz''" True] ex
  have a: "(\<exists>rep. fst (edit_file (no_cache 2) ''a.txt'' ''foo'' ''baz'' True ?w) = Inr rep)
       \<and> content_at (fileSystem (snd (edit_file (no_cache 2) ''a.txt'' ''foo'' ''baz'' True ?w)))
            ''a.txt'' = Some (Some ''baz bar baz'')"
    by (simp add: rp np)
  from edit_file_guard [OF getFile_session_foo t c, of "''foo''" "''baz''" False] two
  have b: "\<exists>msg. edit_file (no_cache 2) ''a.txt'' ''foo'' ''baz'' False ?w = (Inl (ErrorObj msg), ?w)"
    by (simp add: same)
  from edit_file_guard [OF getFile_session_foo t c, of "''qux''" "''baz''" True] noq
  have d: "\<exists>msg. edit_file (no_cache 2) ''a.txt'' ''qux'' ''baz'' True ?w = (Inl (ErrorObj msg), ?w)"
    by (simp add: same)
  from a b d show ?thesis by blast
qed

text \<open>
  Claim C6. The specification has \<open>edit_file\<close> fail when \<open>old_content\<close> occurs more than
  once and \<open>replace_all\<close> is not set. The guard counts the matches of a global regular
  expression, which never overlap. In \<open>aaa\<close> the text \<open>aa\<close> occurs at offsets 0 and 1,
  the guard counts one occurrence, and \<open>edit_file\<close> without \<open>replace_all\<close> succeeds and
  rewrites the file to \<open>ba\<close>.
\<close>

theorem edit_file_overlapping_occurrences_not_rejected:
  "occurs_at ''aaa'' 0 ''aa'' \<and> occurs_at ''aaa'' 1 ''aa''
   \<and> count_matches ''aa'' ''aaa'' = 1
   \<and> \<not> isl (fst (edit_file (no_cache 2) ''a.txt'' ''aa'' ''b'' False (session_with ''a.txt'' ''aaa'')))
   \<and> content_at (fileSystem (snd (edit_file (no_cache 2) ''a.txt'' ''aa'' ''b'' False
                                    (session_with ''a.txt'' ''aaa'')))) ''a.txt''
       = Some (Some ''ba'')"
  by code_simp

text \<open>
  The replacement is a pattern of \<open>String.prototype.replace\<close>: a \<open>new_content\<close> of two
  dollar signs writes one.
\<close>

lemma edit_file_dollar_pattern:
  "content_at (fileSystem (snd (edit_file (no_cache 2) ''a.txt'' ''foo'' ''$$'' True
                                  (session_with ''a.txt'' ''foo bar foo'')))) ''a.txt''
     = Some (Some ''$ bar $'')"
  by code_simp

subsection \<open>Creating a file that exists\<close>





subsection \<open>The registry as error boundary\<close>

text \<open>
  Claim C9. \<open>ToolRegistry.execute\<close> always returns a \<open>ToolResult\<close> and never throws: for
  a name that is not registered the failure \<open>Unknown tool: name\<close>; when validation finds
  violations the failure carrying all of them joined by \<open>, \<close> (the state untouched in both
  cases); otherwise, when the tool throws, the failure carrying the message of the error,
  and when it returns, the success carrying what it returned.
\<close>

theorem registry_execute_error_boundary:
  "\<exists>r. fst (registry_execute tools toolCall st) = Inr r
     \<and> (case map_of tools (call_name toolCall) of
          None \<Rightarrow>
            r = \<lparr>success = False, result = None,
                 error = Some (''Unknown tool: '' @ call_name toolCall)\<rparr>
            \<and> snd (registry_execute tools toolCall st) = st
        | Some tool \<Rightarrow>
            (if validateArgs (tool_parameters tool) (call_arguments toolCall) \<noteq> []
             then r = \<lparr>success = False, result = None,
                       error = Some (''Validation errors: ''
                         @ join '', '' (validateArgs (tool_parameters tool)
                                          (call_arguments toolCall)))\<rparr>
                  \<and> snd (registry_execute tools toolCall st) = st
             else (case fst (tool_execute tool (call_arguments toolCall) st) of
                     Inl (ErrorObj msg) \<Rightarrow>
                       r = \<lparr>success = False, result = None, error = Some msg\<rparr>
                   | Inl (ThrownString s) \<Rightarrow>
                       r = \<lparr>success = False, result = None, error = Some s\<rparr>
                   | Inr v \<Rightarrow>
                       r = \<lparr>success = True, result = Some v, error = None\<rparr>)
                  \<and> snd (registry_execute tools toolCall st)
                      = snd (tool_execute tool (call_arguments toolCall) st)))"
  by (auto simp: registry_execute_def Let_def formatResult_def
      split: option.splits prod.splits sum.splits thrown.splits)

text \<open>
  The four outcomes with \<open>create_file\<close> registered: an unknown tool, three violations at
  once, the tool's own already-exists error, and a success.
\<close>

theorem registry_execute_error_boundary_witness:
  "fst (registry_execute demo_registry (call ''no_such_tool'' []) new_Session)
     = Inr \<lparr>success = False, result = None, error = Some ''Unknown tool: no_such_tool''\<rparr>
   \<and> fst (registry_execute demo_registry
            (call ''create_file'' [(''content'', JNum 5), (''file_type'', JStr ''binary'')])
            new_Session)
     = Inr \<lparr>success = False, result = None,
            error = Some (''Validation errors: Required parameter '' @ [CHR 0x27] @ ''file_path''
              @ [CHR 0x27] @ '' is missing, Parameter '' @ [CHR 0x27] @ ''content'' @ [CHR 0x27]
              @ '' must be a string, Parameter '' @ [CHR 0x27] @ ''file_type'' @ [CHR 0x27]
              @ '' must be one of: text, code, config, markdown'')\<rparr>
   \<and> fst (registry_execute demo_registry
            (call ''create_file'' [(''file_path'', JStr ''a.txt''), (''content'', JStr ''bye'')])
            (session_with ''a.txt'' ''hi''))
     = Inr \<lparr>success = False, result = None, error = Some (already_exists_message ''a.txt'')\<rparr>
   \<and> fst (registry_execute demo_registry
            (call ''create_file'' [(''file_path'', JStr ''a.txt''), (''content'', JStr ''hi'')])
            new_Session)
     = Inr \<lparr>success = True,
            result = Some (WithSize (''Created new file: a.txt'' @ [CHR 0x0A, CHR 0x0A]
                       @ ''**Type:** text'' @ [CHR 0x0A] @ ''**Size:** '') 2
                       ([CHR 0x0A] @ ''**Lines:** 1'')),
            error = None\<rparr>"
proof -
  have u: "map_of demo_registry (call_name (call ''no_such_tool'' [])) = None"
    by (simp add: demo_registry_def call_def)
  have t: "map_of demo_registry ''create_file'' = Some (create_file_tool (no_cache 2))"
    by (simp add: demo_registry_def)
  have v: "validateArgs create_file_parameters
             [(''content'', JNum 5), (''file_type'', JStr ''binary'')]
           = [''Required parameter '' @ [CHR 0x27] @ ''file_path'' @ [CHR 0x27] @ '' is missing'',
              ''Parameter '' @ [CHR 0x27] @ ''content'' @ [CHR 0x27] @ '' must be a string'',
              ''Parameter '' @ [CHR 0x27] @ ''file_type'' @ [CHR 0x27]
                @ '' must be one of: text, code, config, markdown'']"
    by (simp add: validateArgs_def validateParam_def create_file_parameters_def has_prop_def
          type_errors_def enum_errors_def)
  have v0: "validateArgs create_file_parameters [(''file_path'', JStr ''a.txt''), (''content'', JStr s)] = []"
    for s
    by (simp add: validateArgs_def validateParam_def create_file_parameters_def has_prop_def
          type_errors_def enum_errors_def)
  have e1: "fst (create_file (no_cache 2) ''a.txt'' ''bye'' ''text'' (session_with ''a.txt'' ''hi''))
              = Inl (ErrorObj (already_exists_message ''a.txt''))"
    by code_simp
  have e2: "fst (create_file (no_cache 2) ''a.txt'' ''hi'' ''text'' new_Session)
              = Inr (WithSize (''Created new file: a.txt'' @ [CHR 0x0A, CHR 0x0A]
                       @ ''**Type:** text'' @ [CHR 0x0A] @ ''**Size:** '') 2
                       ([CHR 0x0A] @ ''**Lines:** 1''))"
    by code_simp
  have x1: "fst (tool_execute (create_file_tool (no_cache 2))
                  [(''file_path'', JStr ''a.txt''), (''content'', JStr ''bye'')]
                  (session_with ''a.txt'' ''hi''))
            = Inl (ErrorObj (already_exists_message ''a.txt''))"
    by (simp add: create_file_tool_def string_arg_def e1)
  have x2: "fst (tool_execute (create_file_tool (no_cache 2))
                  [(''file_path'', JStr ''a.txt''), (''content'', JStr ''hi'')] new_Session)
            = Inr (WithSize (''Created new file: a.txt'' @ [CHR 0x0A, CHR 0x0A]
                       @ ''**Type:** text'' @ [CHR 0x0A] @ ''**Size:** '') 2
                       ([CHR 0x0A] @ ''**Lines:** 1''))"
    by (simp add: create_file_tool_def string_arg_def e2)
  have ps: "tool_parameters (create_file_tool (no_cache 2)) = create_file_parameters"
    by (simp add: create_file_tool_def)
  from registry_execute_error_boundary [of demo_registry "call ''no_such_tool'' []" new_Session] u
  have a: "fst (registry_execute demo_registry (call ''no_such_tool'' []) new_Session)
     = Inr \<lparr>success = False, result = None, error = Some ''Unknown tool: no_such_tool''\<rparr>"
    by (auto simp: call_def)
  from registry_execute_error_boundary [of demo_registry
         "call ''create_file'' [(''content'', JNum 5), (''file_type'', JStr ''binary'')]" new_Session]
  have b: "fst (registry_execute demo_registry
            (call ''create_file'' [(''content'', JNum 5), (''file_type'', JStr ''binary'')])
            new_Session)
     = Inr \<lparr>success = False, result = None,
            error = Some (''Validation errors: Required parameter '' @ [CHR 0x27] @ ''file_path''
              @ [CHR 0x27] @ '' is missing, Parameter '' @ [CHR 0x27] @ ''content'' @ [CHR 0x27]
              @ '' must be a string, Parameter '' @ [CHR 0x27] @ ''file_type'' @ [CHR 0x27]
              @ '' must be one of: text, code, config, markdown'')\<rparr>"
    by (auto simp: call_def t ps v)
  from registry_execute_error_boundary [of demo_registry
         "call ''create_file'' [(''file_path'', JStr ''a.txt''), (''content'', JStr ''bye'')]"
         "session_with ''a.txt'' ''hi''"]
  have c: "fst (registry_execute demo_registry
            (call ''create_file'' [(''file_path'', JStr ''a.txt''), (''content'', JStr ''bye'')])
            (session_with ''a.txt'' ''hi''))
     = Inr \<lparr>success = False, result = None, error = Some (already_exists_message ''a.txt'')\<rparr>"
    by (auto simp: call_def t ps v0 x1)
  from registry_execute_error_boundary [of demo_registry
         "call ''create_file'' [(''file_path'', JStr ''a.txt''), (''content'', JStr ''hi'')]"
         new_Session]
  have d: "fst (registry_execute demo_registry
            (call ''create_file'' [(''file_path'', JStr ''a.txt''), (''content'', JStr ''hi'')])
            new_Session)
     = Inr \<lparr>success = True,
            result = Some (WithSize (''Created new file: a.txt'' @ [CHR 0x0A, CHR 0x0A]
                       @ ''**Type:** text'' @ [CHR 0x0A] @ ''**Size:** '') 2
                       ([CHR 0x0A] @ ''**Lines:** 1'')),
            error = None\<rparr>"
    by (auto simp: call_def t ps v0 x2)
  from a b c d show ?thesis by blast
qed

subsection \<open>Undo and redo\<close>

lemma content_at_addFile:
  "content_at (snd (addFile env p content kind sz lm fs)) q =
     (if q = normalizePath p then Some content else content_at fs q)"
  by (simp add: content_at_def files_addFile) (simp add: addFile_def Let_def)

lemma content_at_deleteFile:
  "content_at (snd (deleteFile p fs)) q = (if q = normalizePath p then None else content_at fs q)"
  by (simp add: content_at_def files_deleteFile)

lemma content_at_getFile:
  "q \<noteq> normalizePath p \<Longrightarrow> content_at (snd (getFile env p fs)) q = content_at fs q"
  by (auto simp: content_at_def getFile_def Let_def map_of_update split: option.splits)

lemma content_at_rfs: "np c \<noteq> q \<Longrightarrow> content_at (rfs b env c fs) q = content_at fs q"
  by (auto simp: rfs_def revertCreate_def revertEdit_def revertDelete_def np_def
        content_at_deleteFile content_at_updateFile content_at_addFile split: option.splits)

lemma content_at_afs:
  "wf_change c \<Longrightarrow>
     content_at (afs True env c fs) q = (if q = np c then eff c else content_at fs q)"
  by (auto simp: afs_def applyCreate_def applyEdit_def applyDelete_def np_def eff_def wf_change_def
        content_at_deleteFile content_at_updateFile content_at_addFile split: option.splits)

lemma afs_False [simp]: "afs False env c fs = fs"
  by (simp add: afs_def)

lemma rfs_False [simp]: "rfs False env c fs = fs"
  by (simp add: rfs_def)

lemma revertChange_wf:
  "wf_change c \<Longrightarrow>
     revertChange env c w = Inr (w\<lparr>fileSystem := rfs (window_fileSystem w) env c (fileSystem w)\<rparr>)"
  by (auto simp: revertChange_def rfs_def wf_change_def)

lemma applyChange_wf:
  "wf_change c \<Longrightarrow>
     applyChange env c w = Inr (w\<lparr>fileSystem := afs (window_fileSystem w) env c (fileSystem w)\<rparr>)"
  by (auto simp: applyChange_def afs_def wf_change_def)

lemma lastw_append:
  "lastw (xs @ ys) p = (case lastw ys p of Some e \<Rightarrow> Some e | None \<Rightarrow> lastw xs p)"
  by (induction xs) (auto split: option.splits)

lemma lastw_None_iff: "lastw cs p = None \<longleftrightarrow> (\<forall>c \<in> set cs. np c \<noteq> p)"
  by (induction cs) (auto split: option.splits)

lemma content_at_revert_chain:
  "\<forall>c \<in> set cs. np c \<noteq> p \<Longrightarrow> content_at (revert_chain b es cs fs) p = content_at fs p"
  by (induction b es cs fs rule: revert_chain.induct) (simp_all add: content_at_rfs)

lemma content_at_apply_chain:
  "list_all wf_change cs \<Longrightarrow> length es = length cs \<Longrightarrow>
     content_at (apply_chain True es cs fs) p =
       (case lastw cs p of Some e \<Rightarrow> e | None \<Rightarrow> content_at fs p)"
proof (induction cs arbitrary: es fs)
  case Nil
  then show ?case by simp
next
  case (Cons c cs)
  then obtain e es' where es: "es = e # es'" by (cases es) auto
  with Cons show ?case
    by (auto simp: content_at_afs split: option.splits)
qed

lemma apply_chain_False [simp]: "apply_chain False es cs fs = fs"
  by (induction "False" es cs fs rule: apply_chain.induct) simp_all

lemma revert_chain_False [simp]: "revert_chain False es cs fs = fs"
  by (induction "False" es cs fs rule: revert_chain.induct) simp_all

lemma undo_step:
  assumes "undoStack (changeTracker w) = U0 @ [a]" and "wf_change (action_change a)"
  shows "undo e w =
     (Inr True,
      w\<lparr>fileSystem := rfs (window_fileSystem w) e (action_change a) (fileSystem w),
        changeTracker := (changeTracker w)
          \<lparr>undoStack := U0, redoStack := redoStack (changeTracker w) @ [a]\<rparr>\<rparr>)"
  using assms by (simp add: undo_def Let_def revertChange_wf)

lemma redo_step:
  assumes "redoStack (changeTracker w) = R0 @ [a]" and "wf_change (action_change a)"
  shows "redo e w =
     (Inr True,
      w\<lparr>fileSystem := afs (window_fileSystem w) e (action_change a) (fileSystem w),
        changeTracker := (changeTracker w)
          \<lparr>redoStack := R0, undoStack := undoStack (changeTracker w) @ [a]\<rparr>\<rparr>)"
  using assms by (simp add: redo_def Let_def applyChange_wf)

lemma undo_times_chain:
  assumes "undoStack (changeTracker w) = U0 @ as" and "length es = length as"
    and "list_all (\<lambda>a. wf_change (action_change a)) as"
  shows "undo_times es w =
     Some (w\<lparr>fileSystem :=
               revert_chain (window_fileSystem w) es (rev (map action_change as)) (fileSystem w),
             changeTracker := (changeTracker w)
               \<lparr>undoStack := U0, redoStack := redoStack (changeTracker w) @ rev as\<rparr>\<rparr>)"
  using assms
proof (induction as arbitrary: es w rule: rev_induct)
  case Nil
  then show ?case by simp
next
  case (snoc a as)
  then obtain e es' where es: "es = e # es'" by (cases es) auto
  have st: "undoStack (changeTracker w) = (U0 @ as) @ [a]" using snoc.prems(1) by simp
  have wf: "wf_change (action_change a)" using snoc.prems(3) by simp
  let ?w1 = "w\<lparr>fileSystem := rfs (window_fileSystem w) e (action_change a) (fileSystem w),
        changeTracker := (changeTracker w)
          \<lparr>undoStack := U0 @ as, redoStack := redoStack (changeTracker w) @ [a]\<rparr>\<rparr>"
  have u: "undo e w = (Inr True, ?w1)" using undo_step [OF st wf] .
  have ih: "undo_times es' ?w1 =
     Some (?w1\<lparr>fileSystem :=
               revert_chain (window_fileSystem ?w1) es' (rev (map action_change as)) (fileSystem ?w1),
             changeTracker := (changeTracker ?w1)
               \<lparr>undoStack := U0, redoStack := redoStack (changeTracker ?w1) @ rev as\<rparr>\<rparr>)"
    using snoc.prems es by (intro snoc.IH) simp_all
  show ?case using u ih es by simp
qed

lemma redo_times_chain:
  assumes "redoStack (changeTracker w) = R0 @ rev bs" and "length es = length bs"
    and "list_all (\<lambda>a. wf_change (action_change a)) bs"
  shows "redo_times es w =
     Some (w\<lparr>fileSystem :=
               apply_chain (window_fileSystem w) es (map action_change bs) (fileSystem w),
             changeTracker := (changeTracker w)
               \<lparr>redoStack := R0, undoStack := undoStack (changeTracker w) @ bs\<rparr>\<rparr>)"
  using assms
proof (induction bs arbitrary: es w)
  case Nil
  then show ?case by simp
next
  case (Cons b bs)
  then obtain e es' where es: "es = e # es'" by (cases es) auto
  have st: "redoStack (changeTracker w) = (R0 @ rev bs) @ [b]" using Cons.prems(1) by simp
  have wf: "wf_change (action_change b)" using Cons.prems(3) by simp
  let ?w1 = "w\<lparr>fileSystem := afs (window_fileSystem w) e (action_change b) (fileSystem w),
        changeTracker := (changeTracker w)
          \<lparr>redoStack := R0 @ rev bs, undoStack := undoStack (changeTracker w) @ [b]\<rparr>\<rparr>"
  have u: "redo e w = (Inr True, ?w1)" using redo_step [OF st wf] .
  have ih: "redo_times es' ?w1 =
     Some (?w1\<lparr>fileSystem :=
               apply_chain (window_fileSystem ?w1) es' (map action_change bs) (fileSystem ?w1),
             changeTracker := (changeTracker ?w1)
               \<lparr>redoStack := R0, undoStack := undoStack (changeTracker ?w1) @ bs\<rparr>\<rparr>)"
    using Cons.prems es by (intro Cons.IH) simp_all
  show ?case using u ih es by simp
qed

text \<open>Undoing and redoing the top \<open>n\<close> changes of a tracked session.\<close>

lemma undo_redo_tracked:
  assumes tr: "tracked w" and n: "n \<le> length (undoStack (changeTracker w))"
    and l1: "length es1 = n" and l2: "length es2 = n"
  shows "\<exists>w1 w2. undo_times es1 w = Some w1 \<and> redo_times es2 w1 = Some w2
          \<and> (\<forall>p. content_at (fileSystem w2) p = content_at (fileSystem w) p)
          \<and> undoStack (changeTracker w2) = undoStack (changeTracker w)
          \<and> redoStack (changeTracker w2) = redoStack (changeTracker w)"
proof -
  let ?U = "undoStack (changeTracker w)"
  let ?k = "length ?U - n"
  let ?bot = "take ?k ?U"
  let ?top = "drop ?k ?U"
  let ?b = "window_fileSystem w"
  have las: "length ?top = n" using n by simp
  have wfU: "list_all (\<lambda>a. wf_change (action_change a)) ?U" using tr by (simp add: tracked_def)
  then have wfas: "list_all (\<lambda>a. wf_change (action_change a)) ?top"
    by (metis append_take_drop_id list_all_append)
  let ?fs1 = "revert_chain ?b es1 (rev (map action_change ?top)) (fileSystem w)"
  let ?w1 = "w\<lparr>fileSystem := ?fs1,
             changeTracker := (changeTracker w)
               \<lparr>undoStack := ?bot, redoStack := redoStack (changeTracker w) @ rev ?top\<rparr>\<rparr>"
  have u: "undo_times es1 w = Some ?w1"
  proof (rule undo_times_chain)
    show "?U = ?bot @ ?top" by simp
    show "length es1 = length ?top" using l1 las by simp
    show "list_all (\<lambda>a. wf_change (action_change a)) ?top" by (rule wfas)
  qed
  let ?fs2 = "apply_chain ?b es2 (map action_change ?top) ?fs1"
  let ?w2 = "?w1\<lparr>fileSystem := ?fs2,
             changeTracker := (changeTracker ?w1)
               \<lparr>redoStack := redoStack (changeTracker w), undoStack := ?bot @ ?top\<rparr>\<rparr>"
  have r0: "redo_times es2 ?w1 =
     Some (?w1\<lparr>fileSystem :=
               apply_chain (window_fileSystem ?w1) es2 (map action_change ?top) (fileSystem ?w1),
             changeTracker := (changeTracker ?w1)
               \<lparr>redoStack := redoStack (changeTracker w),
                 undoStack := undoStack (changeTracker ?w1) @ ?top\<rparr>\<rparr>)"
  proof (rule redo_times_chain)
    show "redoStack (changeTracker ?w1) = redoStack (changeTracker w) @ rev ?top" by simp
    show "length es2 = length ?top" using l2 las by simp
    show "list_all (\<lambda>a. wf_change (action_change a)) ?top" by (rule wfas)
  qed
  have r: "redo_times es2 ?w1 = Some ?w2"
    using r0 by simp
  have content: "content_at ?fs2 p = content_at (fileSystem w) p" for p
  proof (cases ?b)
    case False
    then show ?thesis by simp
  next
    case True
    have wfc: "list_all wf_change (map action_change ?top)"
      using wfas by (simp add: list_all_iff)
    have c2: "content_at ?fs2 p =
        (case lastw (map action_change ?top) p of Some e \<Rightarrow> e | None \<Rightarrow> content_at ?fs1 p)"
      using content_at_apply_chain [OF wfc, of es2 ?fs1 p] l2 las True by simp
    show ?thesis
    proof (cases "lastw (map action_change ?top) p")
      case None
      then have "\<forall>c \<in> set (rev (map action_change ?top)). np c \<noteq> p"
        by (simp add: lastw_None_iff)
      from content_at_revert_chain [OF this] c2 None show ?thesis by simp
    next
      case (Some e)
      have "map action_change ?U = map action_change ?bot @ map action_change ?top"
        by (metis append_take_drop_id map_append)
      then have "lastw (map action_change ?U) p = Some e"
        using Some by (simp add: lastw_append)
      with tr have "content_at (fileSystem w) p = e" by (simp add: tracked_def)
      with c2 Some show ?thesis by simp
    qed
  qed
  show ?thesis
    apply (rule exI [of _ ?w1], rule exI [of _ ?w2])
    using u r content by simp
qed

lemma lastw_tl: "lastw (tl cs) p = Some e \<Longrightarrow> lastw cs p = Some e"
  by (cases cs) simp_all

lemma tracked_start: "tracked (start_session fs0 b)"
  by (simp add: tracked_def start_session_def new_ChangeTracker_def)

lemma tracked_push:
  assumes tr: "tracked w" and wf: "wf_change c"
    and fs': "\<And>q. content_at fs' q = (if q = np c then eff c else content_at (fileSystem w) q)"
  shows "tracked (w\<lparr>fileSystem := fs', changeTracker := recordChange env c (changeTracker w)\<rparr>)"
proof -
  let ?U = "undoStack (changeTracker w)"
  let ?a = "\<lparr>action_type = ''change'', action_change = c, action_timestamp = env_now env\<rparr>"
  let ?X = "?U @ [?a]"
  have wfX: "list_all (\<lambda>a. wf_change (action_change a)) ?X"
    using tr wf by (simp add: tracked_def)
  have cX: "content_at fs' p = e" if "lastw (map action_change ?X) p = Some e" for p e
  proof (cases "np c = p")
    case True
    with that have "e = eff c" by (simp add: lastw_append)
    with True fs' show ?thesis by simp
  next
    case False
    with that have "lastw (map action_change ?U) p = Some e" by (simp add: lastw_append)
    with tr have "content_at (fileSystem w) p = e" by (simp add: tracked_def)
    with False fs' show ?thesis by auto
  qed
  have wfT: "list_all (\<lambda>a. wf_change (action_change a)) (tl ?X)"
    using wfX by (cases ?X) simp_all
  have cT: "content_at fs' p = e" if "lastw (map action_change (tl ?X)) p = Some e" for p e
  proof -
    from that have "lastw (tl (map action_change ?X)) p = Some e" by (simp add: map_tl)
    from lastw_tl [OF this] cX show ?thesis by blast
  qed
  show ?thesis
    unfolding tracked_def recordChange_def Let_def
    using wfX wfT cX cT by auto
qed

lemma np_mk_change [simp]: "np (mk_change env t p old new) = normalizePath p"
  by (simp add: np_def mk_change_def)

lemma eff_mk_change [simp]:
  "eff (mk_change env t p old new) = (if t = ''delete'' then None else Some new)"
  by (simp add: eff_def mk_change_def)

lemma wf_mk_change [simp]:
  "wf_change (mk_change env ''create'' p old (Some n))"
  "wf_change (mk_change env ''edit'' p old (Some n))"
  "wf_change (mk_change env ''delete'' p old new)"
  by (simp_all add: wf_change_def mk_change_def)

lemma content_update_after_get:
  "content_at (snd (updateFile env p c (snd (getFile env' p fs)))) q =
     (if q = normalizePath p then Some (Some c) else content_at fs q)"
  by (simp add: content_at_updateFile content_at_getFile)

lemma content_delete_after_get:
  "content_at (snd (deleteFile p (snd (getFile env' p fs)))) q =
     (if q = normalizePath p then None else content_at fs q)"
  by (simp add: content_at_deleteFile content_at_getFile)

lemma tracked_write_file:
  assumes "tracked w"
  shows "tracked (snd (write_file env p c w))"
proof -
  obtain ex fs1 where g: "getFile env p (fileSystem w) = (ex, fs1)" by (cases "getFile env p (fileSystem w)")
  obtain f fs2 where u: "updateFile env p c fs1 = (f, fs2)" by (cases "updateFile env p c fs1")
  have fs2: "fs2 = snd (updateFile env p c (snd (getFile env p (fileSystem w))))"
    using g u by simp
  have ca: "content_at fs2 q = (if q = normalizePath p then Some (Some c) else content_at (fileSystem w) q)" for q
    unfolding fs2 by (rule content_update_after_get)
  show ?thesis
  proof (cases ex)
    case None
    have "tracked (w\<lparr>fileSystem := fs2,
       changeTracker := recordChange env (mk_change env ''create'' p None (Some c)) (changeTracker w)\<rparr>)"
      by (rule tracked_push [OF assms]) (simp_all add: ca)
    with None g u show ?thesis by (simp add: write_file_def)
  next
    case (Some x)
    have "tracked (w\<lparr>fileSystem := fs2,
       changeTracker := recordChange env (mk_change env ''edit'' p (fe_content x) (Some c)) (changeTracker w)\<rparr>)"
      by (rule tracked_push [OF assms]) (simp_all add: ca)
    with Some g u show ?thesis by (simp add: write_file_def)
  qed
qed

lemma tracked_edit_file:
  assumes "tracked w" and "edit_file env p old new ra w = (Inr r, w')"
  shows "tracked w'"
proof -
  obtain ex fs1 where g: "getFile env p (fileSystem w) = (ex, fs1)" by (cases "getFile env p (fileSystem w)")
  from assms(2) g obtain f where ex: "ex = Some f" by (cases ex) (auto simp: edit_file_def Let_def)
  from assms(2) g ex obtain c where c: "fe_content f = Some c"
    by (cases "fe_content f") (auto simp: edit_file_def Let_def split: if_splits)
  let ?n = "if ra then replace_all_matches old new c else replace_first old new c"
  let ?fs2 = "snd (updateFile env p ?n fs1)"
  have w': "w' = w\<lparr>fileSystem := ?fs2,
       changeTracker := recordChange env (mk_change env ''edit'' p (Some c) (Some ?n)) (changeTracker w)\<rparr>"
    using assms(2) g ex c by (auto simp: edit_file_def Let_def split: if_splits)
  have fs1: "fs1 = snd (getFile env p (fileSystem w))" using g by simp
  have ca: "content_at ?fs2 q = (if q = normalizePath p then Some (Some ?n) else content_at (fileSystem w) q)" for q
    unfolding fs1 by (rule content_update_after_get)
  show ?thesis unfolding w'
    by (rule tracked_push [OF assms(1)]) (simp_all add: ca)
qed

lemma tracked_create_file:
  assumes "tracked w" and "create_file env p content ft w = (Inr r, w')"
  shows "tracked w'"
proof -
  obtain ex fs1 where g: "getFile env p (fileSystem w) = (ex, fs1)" by (cases "getFile env p (fileSystem w)")
  from assms(2) g have ex: "ex = None" by (cases ex) (auto simp: create_file_def Let_def)
  with g have fs1: "fs1 = fileSystem w"
    by (auto simp: getFile_def Let_def split: option.splits if_splits)
  let ?n = "if content = [] \<and> ft \<noteq> [] then getTemplateContent p ft else content"
  let ?fs2 = "snd (addFile env p (Some ?n) ''file'' None None (fileSystem w))"
  have w': "w' = w\<lparr>fileSystem := ?fs2,
       changeTracker := recordChange env (mk_change env ''create'' p None (Some ?n)) (changeTracker w)\<rparr>"
    using assms(2) g ex fs1 by (auto simp: create_file_def Let_def split: prod.splits)
  show ?thesis unfolding w'
    by (rule tracked_push [OF assms(1)]) (simp_all add: content_at_addFile)
qed

lemma tracked_delete_file:
  assumes "tracked w" and "delete_file env p confirm w = (Inr r, w')"
  shows "tracked w'"
proof -
  obtain ex fs1 where g: "getFile env p (fileSystem w) = (ex, fs1)" by (cases "getFile env p (fileSystem w)")
  from assms(2) have cf: confirm by (auto simp: delete_file_def Let_def split: if_splits)
  from assms(2) g cf obtain f where ex: "ex = Some f" by (cases ex) (auto simp: delete_file_def Let_def)
  let ?fs2 = "snd (deleteFile p fs1)"
  have w': "w' = w\<lparr>fileSystem := ?fs2,
       changeTracker := recordChange env (mk_change env ''delete'' p (fe_content f) None) (changeTracker w)\<rparr>"
    using assms(2) g ex cf by (auto simp: delete_file_def Let_def split: if_splits prod.splits)
  have fs1: "fs1 = snd (getFile env p (fileSystem w))" using g by simp
  have ca: "content_at ?fs2 q = (if q = normalizePath p then None else content_at (fileSystem w) q)" for q
    unfolding fs1 by (rule content_delete_after_get)
  show ?thesis unfolding w'
    by (rule tracked_push [OF assms(1)]) (simp_all add: ca)
qed

lemma tracked_run_op:
  assumes "tracked w" and "run_op x w = (Inr r, w')"
  shows "tracked w'"
proof (cases x)
  case (OpWrite env p c)
  with assms(2) have "w' = snd (write_file env p c w)" by simp
  with tracked_write_file [OF assms(1)] show ?thesis by simp
next
  case (OpEdit env p old new ra)
  with assms tracked_edit_file show ?thesis by simp
next
  case (OpCreate env p c ft)
  with assms tracked_create_file show ?thesis by simp
next
  case (OpDelete env p cf)
  with assms tracked_delete_file show ?thesis by simp
qed

lemma tracked_run_ops: "tracked w \<Longrightarrow> run_ops xs w = Some w' \<Longrightarrow> tracked w'"
proof (induction xs arbitrary: w)
  case Nil
  then show ?case by simp
next
  case (Cons x xs)
  obtain o1 w1 where r: "run_op x w = (o1, w1)" by (cases "run_op x w")
  with Cons.prems(2) obtain v where v: "o1 = Inr v" by (cases o1) auto
  from Cons.prems(1) r v have "tracked w1" using tracked_run_op by blast
  with Cons.IH Cons.prems(2) r v show ?case by simp
qed

text \<open>
  Claim C1. After a sequence of write, edit, create and delete calls that all succeed,
  started with an empty history, \<open>n\<close> calls of \<open>undo()\<close> followed by \<open>n\<close> calls of
  \<open>redo()\<close>, for \<open>n\<close> at most the length of the undo stack, all return \<open>true\<close> and leave
  every path with the content it had after the sequence; the two stacks are as before.
\<close>

theorem undo_redo_inverse:
  assumes "run_ops ops (start_session fs0 bound) = Some w"
    and "n \<le> length (undoStack (changeTracker w))"
    and "length es1 = n" and "length es2 = n"
  shows "\<exists>w1 w2. undo_times es1 w = Some w1 \<and> redo_times es2 w1 = Some w2
          \<and> (\<forall>p. content_at (fileSystem w2) p = content_at (fileSystem w) p)
          \<and> undoStack (changeTracker w2) = undoStack (changeTracker w)
          \<and> redoStack (changeTracker w2) = redoStack (changeTracker w)"
proof -
  have "tracked w" using tracked_run_ops [OF tracked_start assms(1)] .
  from undo_redo_tracked [OF this assms(2) assms(3) assms(4)] show ?thesis .
qed

text \<open>
  Five calls, then three times \<open>undo()\<close>, which leaves \<open>a.txt\<close> with its second content
  and no \<open>b.txt\<close>, then three times \<open>redo()\<close>.
\<close>

theorem undo_redo_inverse_witness:
  "run_ops demo_ops (start_session empty_fs True) = Some demo_session
   \<and> length (undoStack (changeTracker demo_session)) = 5
   \<and> map_option (\<lambda>w. (content_at (fileSystem w) ''a.txt'', content_at (fileSystem w) ''b.txt''))
        (undo_times demo_envs demo_session) = Some (Some (Some ''two''), None)
   \<and> (\<exists>w1 w2. undo_times demo_envs demo_session = Some w1
         \<and> redo_times [no_cache 9, no_cache 10, no_cache 11] w1 = Some w2
         \<and> (\<forall>p. content_at (fileSystem w2) p = content_at (fileSystem demo_session) p)
         \<and> undoStack (changeTracker w2) = undoStack (changeTracker demo_session)
         \<and> redoStack (changeTracker w2) = redoStack (changeTracker demo_session))"
proof -
  have r: "run_ops demo_ops (start_session empty_fs True) = Some demo_session"
  proof -
    have "run_ops demo_ops (start_session empty_fs True) \<noteq> None" by code_simp
    then show ?thesis by (auto simp: demo_session_def)
  qed
  have l: "length (undoStack (changeTracker demo_session)) = 5" by code_simp
  have m: "map_option (\<lambda>w. (content_at (fileSystem w) ''a.txt'', content_at (fileSystem w) ''b.txt''))
        (undo_times demo_envs demo_session) = Some (Some (Some ''two''), None)" by code_simp
  have "\<exists>w1 w2. undo_times demo_envs demo_session = Some w1
         \<and> redo_times [no_cache 9, no_cache 10, no_cache 11] w1 = Some w2
         \<and> (\<forall>p. content_at (fileSystem w2) p = content_at (fileSystem demo_session) p)
         \<and> undoStack (changeTracker w2) = undoStack (changeTracker demo_session)
         \<and> redoStack (changeTracker w2) = redoStack (changeTracker demo_session)"
    using undo_redo_inverse [OF r, of 3 demo_envs "[no_cache 9, no_cache 10, no_cache 11]"] l
    by (simp add: demo_envs_def)
  with r l m show ?thesis by blast
qed

subsection \<open>The ranking of the relevant files\<close>

text \<open>
  Claim C3. The specification ranks every directly mentioned file ahead of every keyword
  match. The store holds \<open>auth.js\<close> and \<open>notes.txt\<close>, whose only line is \<open>bug\<close>, and the
  prompt is \<open>fix bug in auth.js\<close>. The content search scores \<open>notes.txt\<close> 1.97 for the
  keyword \<open>bug\<close>, stage 2 records it with 1.97 * 0.8 = 1.576, and the final sort by score
  puts it first: the first file returned has the reason \<open>keyword_match\<close>, and the mentioned
  file \<open>auth.js\<close>, of score 1, comes second.
\<close>

theorem findRelevantFiles_keyword_match_ranked_first:
  "fst (findRelevantFiles (no_cache 1) (analyzeIntent ''fix bug in auth.js'') 5 auth_store) =
     Returns
       [\<lparr>rf_path = ''notes.txt'', rf_content = Some ''bug'',
         relevanceScore = 197 / 125, reason = ''keyword_match'',
         rf_matchedLines =
           [\<lparr>ml_lineNumber = 1, ml_content = ''bug'', ml_matchStart = 0, ml_matchEnd = 3\<rparr>]\<rparr>,
        \<lparr>rf_path = ''auth.js'', rf_content = Some ''login code'',
         relevanceScore = 1, reason = ''directly_mentioned'', rf_matchedLines = []\<rparr>]"
  by code_simp

end
